theory Spec2Isabelle
  imports Main
begin

section \<open>Python values and exceptions\<close>

text \<open>
  The agents are dynamically typed: a message is a \<^verbatim>\<open>dict\<close>, a model response is a
  \<^verbatim>\<open>str\<close> or a \<^verbatim>\<open>dict\<close>, a task returns an instance of a pydantic output model.
  One type of values covers them. \<open>PModel c fs\<close> is an instance of the
  \<^verbatim>\<open>BaseModel\<close> subclass named \<open>c\<close> with the field values \<open>fs\<close>; a dictionary is
  an association list in insertion order, read with \<open>map_of\<close>. Of the floats only the
  three that are not finite are modelled, which is what \<^verbatim>\<open>json.loads\<close> makes of the
  texts \<^verbatim>\<open>NaN\<close>, \<^verbatim>\<open>Infinity\<close> and \<^verbatim>\<open>-Infinity\<close>; finite floats do not occur in any
  message or output model of the source.
\<close>

datatype pyfloat = FNaN | FInfinity | FMinusInfinity

datatype pyval =
    PNone
  | PBool bool
  | PInt int
  | PFloat pyfloat
  | PStr string
  | PList "pyval list"
  | PDict "(string \<times> pyval) list"
  | PModel string "(string \<times> pyval) list"

text \<open>
  Exceptions are instances of \<^verbatim>\<open>Exception\<close>: the class, as far as the source's
  \<^verbatim>\<open>except\<close> clauses tell classes apart, and the text \<^verbatim>\<open>str(e)\<close>.
  \<^verbatim>\<open>JSONDecodeError\<close> is the subclass of \<^verbatim>\<open>ValueError\<close> that \<^verbatim>\<open>json.loads\<close>
  raises; \<open>OtherException\<close> is any other subclass of \<^verbatim>\<open>Exception\<close>. Signals that
  derive from \<^verbatim>\<open>BaseException\<close> only (\<^verbatim>\<open>KeyboardInterrupt\<close>, \<^verbatim>\<open>SystemExit\<close>) are
  not raised by any code of the agents and are not modelled.
\<close>

datatype exn_class = TypeError | ValueError | JSONDecodeError | AttributeError | OtherException

datatype exn = Exn exn_class string

fun exn_str :: "exn \<Rightarrow> string" where
  "exn_str (Exn c m) = m"

fun is_TypeError :: "exn \<Rightarrow> bool" where
  "is_TypeError (Exn c m) = (c = TypeError)"

fun is_JSONDecodeError :: "exn \<Rightarrow> bool" where
  "is_JSONDecodeError (Exn c m) = (c = JSONDecodeError)"

text \<open>Python's truth value of an object, as \<^verbatim>\<open>not task\<close> tests it.\<close>

fun truthy :: "pyval \<Rightarrow> bool" where
  "truthy PNone = False"
| "truthy (PBool b) = b"
| "truthy (PInt i) = (i \<noteq> 0)"
| "truthy (PFloat f) = True"
| "truthy (PStr s) = (s \<noteq> [])"
| "truthy (PList xs) = (xs \<noteq> [])"
| "truthy (PDict kvs) = (kvs \<noteq> [])"
| "truthy (PModel c fs) = True"

fun type_name :: "pyval \<Rightarrow> string" where
  "type_name PNone = ''NoneType''"
| "type_name (PBool b) = ''bool''"
| "type_name (PInt i) = ''int''"
| "type_name (PFloat f) = ''float''"
| "type_name (PStr s) = ''str''"
| "type_name (PList xs) = ''list''"
| "type_name (PDict kvs) = ''dict''"
| "type_name (PModel c fs) = c"

text \<open>
  \<^verbatim>\<open>str.replace(old, new)\<close>: every non-overlapping occurrence of \<open>old\<close>, scanning from
  the left, is replaced by \<open>new\<close>; an empty \<open>old\<close> matches before every character and at
  the end.
\<close>

function str_replace :: "string \<Rightarrow> string \<Rightarrow> string \<Rightarrow> string" where
  "str_replace old new [] = (if old = [] then new else [])"
| "str_replace old new (c # cs) =
     (if old = [] then new @ c # str_replace old new cs
      else if take (length old) (c # cs) = old
        then new @ str_replace old new (drop (length old) (c # cs))
      else c # str_replace old new cs)"
  by pat_completeness auto
termination
  by (relation "measure (\<lambda>(old, new, s). length s)") auto

text \<open>
  \<^verbatim>\<open>model_dump()\<close> of a pydantic instance: the fields as a dictionary, nested
  instances dumped in turn. Only instances have the method, which is what
  \<^verbatim>\<open>hasattr(result, 'model_dump')\<close> tests.
\<close>

fun model_dump :: "pyval \<Rightarrow> pyval" where
  "model_dump (PModel c fs) = PDict (map (\<lambda>kv. (fst kv, model_dump (snd kv))) fs)"
| "model_dump (PList xs) = PList (map model_dump xs)"
| "model_dump (PDict kvs) = PDict (map (\<lambda>kv. (fst kv, model_dump (snd kv))) kvs)"
| "model_dump v = v"

fun has_model_dump :: "pyval \<Rightarrow> bool" where
  "has_model_dump (PModel c fs) = True"
| "has_model_dump v = False"

fun isinstance :: "pyval \<Rightarrow> string \<Rightarrow> bool" where
  "isinstance (PModel c fs) model_class = (c = model_class)"
| "isinstance v model_class = False"

section \<open>The collaborators\<close>

text \<open>
  What the agents import and call is not part of the repository: \<^verbatim>\<open>json.loads\<close> and
  \<^verbatim>\<open>json.dumps\<close> of the standard library, \<^verbatim>\<open>parse_with_fallback\<close> and
  \<^verbatim>\<open>invoke_intelligence\<close> of the \<^verbatim>\<open>dacp\<close> package, the jinja2 templates, the
  decorator \<^verbatim>\<open>behavioural_contract\<close> of the package \<^verbatim>\<open>behavioural_contracts\<close>. They are
  parameters of the model. A call either raises or returns; \<open>invoke_intelligence\<close>
  stands for rendering the task's prompt from its \<^verbatim>\<open>input_dict\<close> and sending it to the
  model endpoint, the one effect of a task, so it also transforms the state \<open>'w\<close> of the
  outside world. \<open>behavioural_contract\<close> takes the name of the task it decorates (which
  stands for the contract written at the decorator) and the decorated function, and
  gives the function that is called in its place.
\<close>

record 'w env =
  json_loads :: "string \<Rightarrow> exn + pyval"
  json_dumps :: "pyval \<Rightarrow> exn + string"
  parse_with_fallback :: "pyval \<Rightarrow> string \<Rightarrow> (string \<times> pyval) list \<Rightarrow> exn + pyval"
  invoke_intelligence :: "string \<Rightarrow> (string \<times> pyval) list \<Rightarrow> 'w \<Rightarrow> (exn + pyval) \<times> 'w"
  behavioural_contract ::
    "string \<Rightarrow> ((string \<times> pyval) list \<Rightarrow> 'w \<Rightarrow> (exn + pyval) \<times> 'w) \<Rightarrow>
       (string \<times> pyval) list \<Rightarrow> 'w \<Rightarrow> (exn + pyval) \<times> 'w"

section \<open>The parse functions\<close>

text \<open>
  The six \<^verbatim>\<open>parse_*_output\<close> functions are one text, instantiated with the output
  model class and the dictionary of defaults:
  \<^verbatim>\<open>
    if isinstance(response, Model): return response
    if isinstance(response, str):
        try: response = json.loads(response)
        except json.JSONDecodeError as e:
            raise ValueError(f'Failed to parse JSON response: {e}')
    try:
        defaults = {...}
        result = parse_with_fallback(response=response, model_class=Model, **defaults)
        return result
    except Exception as e:
        raise ValueError(f'Error parsing response with DACP parser: {e}')
  \<close>
\<close>

definition parse_output ::
  "'w env \<Rightarrow> string \<Rightarrow> (string \<times> pyval) list \<Rightarrow> pyval \<Rightarrow> exn + pyval" where
  "parse_output env model_class defaults response =
     (if isinstance response model_class then Inr response
      else
        (case (case response of
                 PStr s \<Rightarrow>
                   (case json_loads env s of
                      Inl e \<Rightarrow>
                        if is_JSONDecodeError e
                        then Inl (Exn ValueError (''Failed to parse JSON response: '' @ exn_str e))
                        else Inl e
                    | Inr v \<Rightarrow> Inr v)
               | _ \<Rightarrow> Inr response) of
           Inl e \<Rightarrow> Inl e
         | Inr parsed \<Rightarrow>
             (case parse_with_fallback env parsed model_class defaults of
                Inl e \<Rightarrow>
                  Inl (Exn ValueError (''Error parsing response with DACP parser: '' @ exn_str e))
              | Inr result \<Rightarrow> Inr result)))"

definition analyze_error_defaults :: "(string \<times> pyval) list" where
  "analyze_error_defaults =
     [(''analysis_result'', PDict
         [(''root_cause'', PStr ''default_root_cause''),
          (''error_category'', PStr ''default_error_category''),
          (''confidence_level'', PStr ''default_confidence_level''),
          (''impact_assessment'', PStr ''default_impact_assessment'')]),
      (''recommended_fixes'', PList []),
      (''developer_message'', PDict
         [(''summary'', PStr ''default_summary''),
          (''detailed_explanation'', PStr ''default_detailed_explanation''),
          (''next_steps'', PList []),
          (''related_documentation'', PList []),
          (''prevention_tips'', PList [])]),
      (''urgency_level'', PStr ''how_default'')]"

definition generate_pr_comment_defaults :: "(string \<times> pyval) list" where
  "generate_pr_comment_defaults =
     [(''pr_comment'', PStr ''formatted_default''),
      (''comment_metadata'', PDict
         [(''comment_type'', PStr ''default_comment_type''),
          (''tags'', PList []),
          (''urgency'', PStr ''default_urgency'')])]"

definition suggest_workflow_improvements_defaults :: "(string \<times> pyval) list" where
  "suggest_workflow_improvements_defaults =
     [(''workflow_improvements'', PList []),
      (''prevention_strategies'', PList []),
      (''monitoring_recommendations'', PList [])]"

definition collect_errors_defaults :: "(string \<times> pyval) list" where
  "collect_errors_defaults =
     [(''error_summary'', PDict
         [(''primary_error'', PStr ''default_primary_error''),
          (''error_type'', PStr ''default_error_type''),
          (''severity'', PStr ''default_severity''),
          (''affected_files'', PList []),
          (''stack_trace'', PStr ''default_stack_trace''),
          (''error_context'', PStr ''default_error_context''),
          (''suggested_keywords'', PList [])]),
      (''job_context'', PDict
         [(''job_name'', PStr ''default_job_name''),
          (''workflow_name'', PStr ''default_workflow_name''),
          (''repository'', PStr ''default_repository''),
          (''branch'', PStr ''default_branch''),
          (''commit_sha'', PStr ''default_commit_sha''),
          (''pr_number'', PInt 0),
          (''failed_step'', PStr ''default_failed_step'')]),
      (''log_statistics'', PDict
         [(''total_lines'', PInt 0),
          (''error_lines'', PInt 0),
          (''warning_lines'', PInt 0),
          (''duration_estimate'', PStr ''default_duration_estimate'')])]"

definition extract_build_info_defaults :: "(string \<times> pyval) list" where
  "extract_build_info_defaults =
     [(''build_commands'', PList []),
      (''dependencies'', PList []),
      (''build_artifacts'', PList []),
      (''environment_info'', PDict
         [(''os'', PStr ''default_os''),
          (''node_version'', PStr ''default_node_version''),
          (''python_version'', PStr ''default_python_version''),
          (''java_version'', PStr ''default_java_version'')])]"

definition propose_remediation_defaults :: "(string \<times> pyval) list" where
  "propose_remediation_defaults =
     [(''proposed_diff'', PStr ''unified_default''),
      (''files_to_change'', PList []),
      (''rationale'', PStr ''explanation_default'')]"

definition parse_analyze_error_output :: "'w env \<Rightarrow> pyval \<Rightarrow> exn + pyval" where
  "parse_analyze_error_output env response =
     parse_output env ''Analyze_ErrorOutput'' analyze_error_defaults response"

definition parse_generate_pr_comment_output :: "'w env \<Rightarrow> pyval \<Rightarrow> exn + pyval" where
  "parse_generate_pr_comment_output env response =
     parse_output env ''Generate_Pr_CommentOutput'' generate_pr_comment_defaults response"

definition parse_suggest_workflow_improvements_output :: "'w env \<Rightarrow> pyval \<Rightarrow> exn + pyval" where
  "parse_suggest_workflow_improvements_output env response =
     parse_output env ''Suggest_Workflow_ImprovementsOutput''
       suggest_workflow_improvements_defaults response"

definition parse_collect_errors_output :: "'w env \<Rightarrow> pyval \<Rightarrow> exn + pyval" where
  "parse_collect_errors_output env response =
     parse_output env ''Collect_ErrorsOutput'' collect_errors_defaults response"

definition parse_extract_build_info_output :: "'w env \<Rightarrow> pyval \<Rightarrow> exn + pyval" where
  "parse_extract_build_info_output env response =
     parse_output env ''Extract_Build_InfoOutput'' extract_build_info_defaults response"

definition parse_propose_remediation_output :: "'w env \<Rightarrow> pyval \<Rightarrow> exn + pyval" where
  "parse_propose_remediation_output env response =
     parse_output env ''Propose_RemediationOutput'' propose_remediation_defaults response"

section \<open>The task functions\<close>

text \<open>
  Every module-level task function builds \<^verbatim>\<open>input_dict\<close> from its arguments, renders
  the prompt, calls \<^verbatim>\<open>invoke_intelligence\<close> and returns what the task's parse function
  makes of the result. \<^verbatim>\<open>memory_config['enabled']\<close> is \<^verbatim>\<open>False\<close> in all six, so
  \<^verbatim>\<open>memory_summary\<close> never reaches the prompt. An exception of the collaborator or of
  the parse function leaves the body of the task function as it is: there is no
  \<^verbatim>\<open>try\<close> around either call. \<open>task_function\<close> is that body; each task function is
  its body under the decorator \<^verbatim>\<open>behavioural_contract\<close>.
  The agent's method of the same name reads \<^verbatim>\<open>self.get_memory()\<close> first when the
  object has such a method; what that call does is counted with the collaborator.
\<close>

definition input_dict :: "string list \<Rightarrow> (string \<times> pyval) list \<Rightarrow> (string \<times> pyval) list" where
  "input_dict names kwargs =
     map (\<lambda>n. (n, case map_of kwargs n of None \<Rightarrow> PNone | Some v \<Rightarrow> v)) names"

definition task_function ::
  "'w env \<Rightarrow> string \<Rightarrow> string list \<Rightarrow> (pyval \<Rightarrow> exn + pyval) \<Rightarrow>
     (string \<times> pyval) list \<Rightarrow> 'w \<Rightarrow> (exn + pyval) \<times> 'w" where
  "task_function env task names parse kwargs w =
     (case invoke_intelligence env task (input_dict names kwargs) w of
        (Inl e, w') \<Rightarrow> (Inl e, w')
      | (Inr result, w') \<Rightarrow> (parse result, w'))"

definition analyze_error_params :: "string list" where
  "analyze_error_params =
     [''error_summary'', ''job_context'', ''log_statistics'', ''additional_context'']"

definition generate_pr_comment_params :: "string list" where
  "generate_pr_comment_params =
     [''analysis_result'', ''recommended_fixes'', ''developer_message'', ''pr_number'',
      ''repository'', ''job_name'', ''workflow_name'']"

definition suggest_workflow_improvements_params :: "string list" where
  "suggest_workflow_improvements_params =
     [''error_analysis'', ''workflow_name'', ''repository'', ''recurring_patterns'']"

definition collect_errors_params :: "string list" where
  "collect_errors_params =
     [''job_name'', ''workflow_name'', ''raw_logs'', ''job_step'', ''repository'', ''branch'',
      ''commit_sha'', ''pr_number'']"

definition extract_build_info_params :: "string list" where
  "extract_build_info_params = [''raw_logs'', ''build_system'']"

definition propose_remediation_params :: "string list" where
  "propose_remediation_params =
     [''analysis_result'', ''raw_logs'', ''repository'', ''branch'', ''commit_sha'']"

definition analyze_error ::
  "'w env \<Rightarrow> (string \<times> pyval) list \<Rightarrow> 'w \<Rightarrow> (exn + pyval) \<times> 'w" where
  "analyze_error env =
     behavioural_contract env ''analyze_error''
      (task_function env ''analyze_error'' analyze_error_params (parse_analyze_error_output env))"

definition generate_pr_comment ::
  "'w env \<Rightarrow> (string \<times> pyval) list \<Rightarrow> 'w \<Rightarrow> (exn + pyval) \<times> 'w" where
  "generate_pr_comment env =
     behavioural_contract env ''generate_pr_comment''
      (task_function env ''generate_pr_comment'' generate_pr_comment_params
       (parse_generate_pr_comment_output env))"

definition suggest_workflow_improvements ::
  "'w env \<Rightarrow> (string \<times> pyval) list \<Rightarrow> 'w \<Rightarrow> (exn + pyval) \<times> 'w" where
  "suggest_workflow_improvements env =
     behavioural_contract env ''suggest_workflow_improvements''
      (task_function env ''suggest_workflow_improvements'' suggest_workflow_improvements_params
       (parse_suggest_workflow_improvements_output env))"

definition collect_errors ::
  "'w env \<Rightarrow> (string \<times> pyval) list \<Rightarrow> 'w \<Rightarrow> (exn + pyval) \<times> 'w" where
  "collect_errors env =
     behavioural_contract env ''collect_errors''
      (task_function env ''collect_errors'' collect_errors_params (parse_collect_errors_output env))"

definition extract_build_info ::
  "'w env \<Rightarrow> (string \<times> pyval) list \<Rightarrow> 'w \<Rightarrow> (exn + pyval) \<times> 'w" where
  "extract_build_info env =
     behavioural_contract env ''extract_build_info''
      (task_function env ''extract_build_info'' extract_build_info_params
       (parse_extract_build_info_output env))"

definition propose_remediation ::
  "'w env \<Rightarrow> (string \<times> pyval) list \<Rightarrow> 'w \<Rightarrow> (exn + pyval) \<times> 'w" where
  "propose_remediation env =
     behavioural_contract env ''propose_remediation''
      (task_function env ''propose_remediation'' propose_remediation_params
       (parse_propose_remediation_output env))"

section \<open>The agents and their dispatch\<close>

text \<open>
  \<^verbatim>\<open>handle_message\<close> finds the handler with \<^verbatim>\<open>hasattr(self, method_name)\<close> and
  \<^verbatim>\<open>getattr\<close>: an agent is its attribute table. An attribute is a method with its
  declared parameter names (those without a default, those with one) and its body, or
  a value that is not callable. Calling \<^verbatim>\<open>method(**method_params)\<close> is the
  interpreter's binding of keyword arguments: a \<^verbatim>\<open>TypeError\<close> before the body runs
  when a keyword is not a declared parameter or a parameter without default is
  missing. The wording of these interpreter messages is abridged.
\<close>

datatype 'w attr =
    Method string "string list" "string list"
      "(string \<times> pyval) list \<Rightarrow> 'w \<Rightarrow> (exn + pyval) \<times> 'w"
  | Data pyval

type_synonym 'w agent = "string \<Rightarrow> 'w attr option"

definition quoted_names :: "string list \<Rightarrow> string" where
  "quoted_names ns = concat (map (\<lambda>n. '' '' @ [CHR 0x27] @ n @ [CHR 0x27]) ns)"

fun call :: "'w attr \<Rightarrow> (string \<times> pyval) list \<Rightarrow> 'w \<Rightarrow> (exn + pyval) \<times> 'w" where
  "call (Data v) kwargs w =
     (Inl (Exn TypeError ([CHR 0x27] @ type_name v @ [CHR 0x27] @ '' object is not callable'')), w)"
| "call (Method name required optional body) kwargs w =
     (case filter (\<lambda>k. k \<notin> set (required @ optional)) (map fst kwargs) of
        k # ks \<Rightarrow>
          (Inl (Exn TypeError
             (name @ ''() got an unexpected keyword argument'' @ quoted_names [k])), w)
      | [] \<Rightarrow>
          (case filter (\<lambda>p. p \<notin> set (map fst kwargs)) required of
             [] \<Rightarrow> body kwargs w
           | p # ps \<Rightarrow>
               (Inl (Exn TypeError
                  (name @ ''() missing required positional arguments:'' @ quoted_names (p # ps))),
                w)))"

definition error_envelope :: "string \<Rightarrow> pyval" where
  "error_envelope msg = PDict [(''error'', PStr msg)]"

text \<open>
  The two \<^verbatim>\<open>except\<close> clauses that close the \<^verbatim>\<open>try\<close> statement of
  \<^verbatim>\<open>handle_message\<close>, the same in the three agents: a \<^verbatim>\<open>TypeError\<close> first, any
  other \<^verbatim>\<open>Exception\<close> second.
\<close>

definition caught :: "string \<Rightarrow> exn \<Rightarrow> pyval" where
  "caught t e =
     (if is_TypeError e
      then error_envelope (''Invalid parameters for task '' @ t @ '': '' @ exn_str e)
      else error_envelope (''Error executing task '' @ t @ '': '' @ exn_str e))"

text \<open>
  The \<^verbatim>\<open>try\<close> statement of \<^verbatim>\<open>handle_message\<close> in the analyzer and the remediator,
  given what the call \<^verbatim>\<open>method(**method_params)\<close> did: the result is returned, dumped
  when it is a pydantic instance; an exception is turned into an envelope.
\<close>

definition respond :: "string \<Rightarrow> (exn + pyval) \<times> 'w \<Rightarrow> (exn + pyval) \<times> 'w" where
  "respond t outcome =
     (case outcome of
        (Inr result, w') \<Rightarrow> (Inr (if has_model_dump result then model_dump result else result), w')
      | (Inl e, w') \<Rightarrow> (Inr (caught t e), w'))"

text \<open>
  The same statement in the collector: the result goes through \<^verbatim>\<open>json.dumps\<close>, still
  inside the \<^verbatim>\<open>try\<close>, and the text is what is returned.
\<close>

definition collector_respond ::
  "'w env \<Rightarrow> string \<Rightarrow> (exn + pyval) \<times> 'w \<Rightarrow> (exn + pyval) \<times> 'w" where
  "collector_respond env t outcome =
     (case outcome of
        (Inr result, w') \<Rightarrow>
          (case json_dumps env (if has_model_dump result then model_dump result else result) of
             Inr s \<Rightarrow> (Inr (PStr s), w')
           | Inl e \<Rightarrow> (Inr (caught t e), w'))
      | (Inl e, w') \<Rightarrow> (Inr (caught t e), w'))"

definition method_params :: "(string \<times> pyval) list \<Rightarrow> (string \<times> pyval) list" where
  "method_params message = filter (\<lambda>kv. fst kv \<noteq> ''task'') message"

text \<open>
  \<^verbatim>\<open>handle_message\<close> of \<^verbatim>\<open>GithubActionsErrorAnalyzerAgent\<close> and of
  \<^verbatim>\<open>GithubActionsErrorRemediatorAgent\<close> (the two are the same text). The result is
  what the call returns or the exception that leaves it, and the state of the world
  afterwards. \<^verbatim>\<open>task.replace\<close> stands before the \<^verbatim>\<open>try\<close>: a truthy task that is
  not a string has no such method.
\<close>

definition handle_message ::
  "'w agent \<Rightarrow> (string \<times> pyval) list \<Rightarrow> 'w \<Rightarrow> (exn + pyval) \<times> 'w" where
  "handle_message self message w =
     (let task = (case map_of message ''task'' of None \<Rightarrow> PNone | Some v \<Rightarrow> v) in
      if \<not> truthy task then (Inr (error_envelope ''Missing required field: task''), w)
      else
        (case task of
           PStr t \<Rightarrow>
             (let method_name = str_replace ''-'' ''_'' t in
              case self method_name of
                None \<Rightarrow> (Inr (error_envelope (''Unknown task: '' @ t)), w)
              | Some method \<Rightarrow> respond t (call method (method_params message) w))
         | _ \<Rightarrow>
             (Inl (Exn AttributeError
                ([CHR 0x27] @ type_name task @ [CHR 0x27]
                  @ '' object has no attribute '' @ [CHR 0x27] @ ''replace'' @ [CHR 0x27])), w)))"

text \<open>\<^verbatim>\<open>handle_message\<close> of \<^verbatim>\<open>GithubActionsErrorCollectorAgent\<close>.\<close>

definition collector_handle_message ::
  "'w env \<Rightarrow> 'w agent \<Rightarrow> (string \<times> pyval) list \<Rightarrow> 'w \<Rightarrow> (exn + pyval) \<times> 'w" where
  "collector_handle_message env self message w =
     (let task = (case map_of message ''task'' of None \<Rightarrow> PNone | Some v \<Rightarrow> v) in
      if \<not> truthy task then (Inr (error_envelope ''Missing required field: task''), w)
      else
        (case task of
           PStr t \<Rightarrow>
             (let method_name = str_replace ''-'' ''_'' t in
              case self method_name of
                None \<Rightarrow> (Inr (error_envelope (''Unknown task: '' @ t)), w)
              | Some method \<Rightarrow> collector_respond env t (call method (method_params message) w))
         | _ \<Rightarrow>
             (Inl (Exn AttributeError
                ([CHR 0x27] @ type_name task @ [CHR 0x27]
                  @ '' object has no attribute '' @ [CHR 0x27] @ ''replace'' @ [CHR 0x27])), w)))"

text \<open>
  The attribute tables of the three agent classes: the instance attributes
  \<^verbatim>\<open>agent_id\<close> and \<^verbatim>\<open>model\<close> that \<^verbatim>\<open>__init__\<close> sets, and the task methods the
  class defines, each with the parameters it declares (none has a default) and a body
  that calls the module-level task function. \<open>rest\<close> holds whatever else
  \<^verbatim>\<open>hasattr\<close> finds on the object: \<^verbatim>\<open>handle_message\<close>, \<^verbatim>\<open>setup_logging\<close> and
  \<^verbatim>\<open>config\<close>, and what \<^verbatim>\<open>dacp.Agent\<close> and \<^verbatim>\<open>object\<close> provide.
\<close>

definition GithubActionsErrorAnalyzerAgent :: "'w env \<Rightarrow> string \<Rightarrow> 'w agent \<Rightarrow> 'w agent" where
  "GithubActionsErrorAnalyzerAgent env agent_id rest name =
     (if name = ''agent_id'' then Some (Data (PStr agent_id))
      else if name = ''model'' then Some (Data (PStr ''gpt-4''))
      else if name = ''analyze_error''
        then Some (Method ''analyze_error'' analyze_error_params [] (analyze_error env))
      else if name = ''generate_pr_comment''
        then Some (Method ''generate_pr_comment'' generate_pr_comment_params []
                     (generate_pr_comment env))
      else if name = ''suggest_workflow_improvements''
        then Some (Method ''suggest_workflow_improvements'' suggest_workflow_improvements_params []
                     (suggest_workflow_improvements env))
      else rest name)"

definition GithubActionsErrorCollectorAgent :: "'w env \<Rightarrow> string \<Rightarrow> 'w agent \<Rightarrow> 'w agent" where
  "GithubActionsErrorCollectorAgent env agent_id rest name =
     (if name = ''agent_id'' then Some (Data (PStr agent_id))
      else if name = ''model'' then Some (Data (PStr ''gpt-3.5-turbo''))
      else if name = ''collect_errors''
        then Some (Method ''collect_errors'' collect_errors_params [] (collect_errors env))
      else if name = ''extract_build_info''
        then Some (Method ''extract_build_info'' extract_build_info_params []
                     (extract_build_info env))
      else rest name)"

definition GithubActionsErrorRemediatorAgent :: "'w env \<Rightarrow> string \<Rightarrow> 'w agent \<Rightarrow> 'w agent" where
  "GithubActionsErrorRemediatorAgent env agent_id rest name =
     (if name = ''agent_id'' then Some (Data (PStr agent_id))
      else if name = ''model'' then Some (Data (PStr ''gpt-4''))
      else if name = ''propose_remediation''
        then Some (Method ''propose_remediation'' propose_remediation_params []
                     (propose_remediation env))
      else rest name)"

section \<open>Canned collaborators\<close>

text \<open>
  To run the agents on concrete messages the collaborators are replaced by canned
  ones: the model endpoint answers every prompt with the text \<^verbatim>\<open>{}\<close> and counts the
  calls (the state of the world is that count), \<^verbatim>\<open>json.loads\<close> knows the texts
  \<^verbatim>\<open>{}\<close> and \<^verbatim>\<open>NaN\<close> (which the library reads as the float that is not a number) and
  rejects every other, \<^verbatim>\<open>parse_with_fallback\<close> builds the instance from the defaults,
  \<^verbatim>\<open>json.dumps\<close> writes dictionaries, lists, strings without escapes, integers,
  floats, booleans and \<^verbatim>\<open>None\<close>, and \<^verbatim>\<open>behavioural_contract\<close> passes calls through.
\<close>

function digits :: "nat \<Rightarrow> string" where
  "digits n =
     (if n < 10 then [char_of (48 + n)] else digits (n div 10) @ [char_of (48 + n mod 10)])"
  by pat_completeness auto
termination
  by (relation "measure id") auto

fun join :: "string \<Rightarrow> string list \<Rightarrow> string" where
  "join sep [] = []"
| "join sep [x] = x"
| "join sep (x # y # ys) = x @ sep @ join sep (y # ys)"

fun canned_dumps :: "pyval \<Rightarrow> string" where
  "canned_dumps PNone = ''null''"
| "canned_dumps (PBool b) = (if b then ''true'' else ''false'')"
| "canned_dumps (PInt i) = (if i < 0 then ''-'' @ digits (nat (- i)) else digits (nat i))"
| "canned_dumps (PFloat f) =
     (case f of FNaN \<Rightarrow> ''NaN'' | FInfinity \<Rightarrow> ''Infinity'' | FMinusInfinity \<Rightarrow> ''-Infinity'')"
| "canned_dumps (PStr s) = [CHR 0x22] @ s @ [CHR 0x22]"
| "canned_dumps (PList xs) = ''['' @ join '', '' (map canned_dumps xs) @ '']''"
| "canned_dumps (PDict kvs) =
     ''{'' @ join '', ''
        (map (\<lambda>kv. [CHR 0x22] @ fst kv @ [CHR 0x22] @ '': '' @ canned_dumps (snd kv)) kvs) @ ''}''"
| "canned_dumps (PModel c fs) = []"

fun serializable :: "pyval \<Rightarrow> bool" where
  "serializable (PModel c fs) = False"
| "serializable (PList xs) = list_all serializable xs"
| "serializable (PDict kvs) = list_all (\<lambda>kv. serializable (snd kv)) kvs"
| "serializable v = True"

definition canned_env :: "nat env" where
  "canned_env =
     \<lparr> json_loads = (\<lambda>s. if s = ''{}'' then Inr (PDict [])
                          else if s = ''NaN'' then Inr (PFloat FNaN)
                          else Inl (Exn JSONDecodeError ''Expecting value: line 1 column 1 (char 0)'')),
       json_dumps = (\<lambda>v. if serializable v then Inr (canned_dumps v)
                          else Inl (Exn TypeError ''Object is not JSON serializable'')),
       parse_with_fallback = (\<lambda>response model_class defaults. Inr (PModel model_class defaults)),
       invoke_intelligence = (\<lambda>task inputs w. (Inr (PStr ''{}''), Suc w)),
       behavioural_contract = (\<lambda>task f. f) \<rparr>"

definition no_attrs :: "'w agent" where
  "no_attrs name = None"

section \<open>The reconciliation engine\<close>

text \<open>
  \<^verbatim>\<open>parse_with_fallback\<close> is imported from the \<^verbatim>\<open>dacp\<close> package; its text is not in
  the repository. What it is to do is taken from the specification of the
  reconciliation engine, and every definition of this section is modelled from there.
  The diagnostic trail of silent degradations, which the specification returns beside
  a successful record, is not modelled: it changes neither the record nor a failure.
\<close>

text \<open>Modelled from the spec: the \<open>kind\<close> of a SchemaNode, "one of {string, integer,
  boolean, object, array, enum}" (the schema model behind \<^verbatim>\<open>parse_with_fallback\<close>).\<close>

datatype kind = KString | KInteger | KBoolean | KObject | KArray | KEnum

text \<open>Modelled from the spec: SchemaNode, the "recursive description of expected
  shape" that \<^verbatim>\<open>parse_with_fallback\<close> is given as model class and defaults: kind,
  required, default, children (object), element (array), allowed values (enum).\<close>

datatype schema =
  SchemaNode (kind: kind) (required: bool) (default_value: "pyval option")
    (children: "(string \<times> schema) list") (element: "schema option")
    (allowed_values: "string list option")

text \<open>Modelled from the spec: the two fatal failures of \<^verbatim>\<open>parse_with_fallback\<close>,
  MalformedInput and MissingRequiredField(path); the path is the list of field names
  from the root.\<close>

datatype reconciliation_error = MalformedInput | MissingRequiredField "string list"

text \<open>Modelled from the spec: RawValue, the input of \<^verbatim>\<open>parse_with_fallback\<close>, "one
  of {text blob, structured mapping}".\<close>

datatype raw_value = Text string | Mapping pyval

text \<open>Modelled from the spec: the dotted name of a path, as in
  \<^verbatim>\<open>MissingRequiredField("analysis_result.root_cause")\<close>, for the failures of
  \<^verbatim>\<open>parse_with_fallback\<close>.\<close>

definition path_name :: "string list \<Rightarrow> string" where
  "path_name p = join ''.'' p"

text \<open>Modelled from the spec: lower case of ASCII letters, for the "case-insensitive
  match" of enum values in \<^verbatim>\<open>parse_with_fallback\<close>.\<close>

definition lower :: "string \<Rightarrow> string" where
  "lower s =
     map (\<lambda>c. if 65 \<le> (of_char c :: nat) \<and> (of_char c :: nat) \<le> 90
               then char_of ((of_char c :: nat) + 32) else c) s"

text \<open>Modelled from the spec: the value of a decimal digit, for the coercion
  "string\<rightarrow>integer" of \<^verbatim>\<open>parse_with_fallback\<close>.\<close>

fun digit_value :: "char \<Rightarrow> nat option" where
  "digit_value c =
     (if 48 \<le> (of_char c :: nat) \<and> (of_char c :: nat) \<le> 57
      then Some ((of_char c :: nat) - 48) else None)"

text \<open>Modelled from the spec: the number a string of decimal digits writes, for the
  coercion "string\<rightarrow>integer" of \<^verbatim>\<open>parse_with_fallback\<close>.\<close>

fun nat_of_digits :: "nat \<Rightarrow> string \<Rightarrow> nat option" where
  "nat_of_digits acc [] = Some acc"
| "nat_of_digits acc (c # cs) =
     (case digit_value c of None \<Rightarrow> None | Some d \<Rightarrow> nat_of_digits (10 * acc + d) cs)"

text \<open>Modelled from the spec: the integer of a "numeric-looking string" (digits, with
  an optional minus sign), for the coercion "string\<rightarrow>integer" of
  \<^verbatim>\<open>parse_with_fallback\<close>.\<close>

fun int_of_string :: "string \<Rightarrow> int option" where
  "int_of_string [] = None"
| "int_of_string (c # cs) =
     (if c = CHR ''-''
      then (if cs = [] then None else map_option (\<lambda>n. - int n) (nat_of_digits 0 cs))
      else map_option int (nat_of_digits 0 (c # cs)))"

text \<open>Modelled from the spec: the lenient coercion of \<^verbatim>\<open>parse_with_fallback\<close> for
  the primitive kinds and enum. "Primitive kind mismatch: attempt coercion
  (string\<rightarrow>integer, string\<rightarrow>boolean via canonical token set); on coercion failure, treat
  as absent"; "enum: value must be one of allowed_values (case-insensitive match
  permitted); otherwise treated as absent". \<open>None\<close> is "treated as absent". The
  specification does not list the boolean tokens: \<^verbatim>\<open>true\<close> and \<^verbatim>\<open>false\<close> are taken.\<close>

fun coerce :: "kind \<Rightarrow> string list option \<Rightarrow> pyval \<Rightarrow> pyval option" where
  "coerce KString av (PStr s) = Some (PStr s)"
| "coerce KInteger av (PInt i) = Some (PInt i)"
| "coerce KInteger av (PStr s) = map_option PInt (int_of_string s)"
| "coerce KBoolean av (PBool b) = Some (PBool b)"
| "coerce KBoolean av (PStr s) =
     (if lower s = ''true'' then Some (PBool True)
      else if lower s = ''false'' then Some (PBool False) else None)"
| "coerce KEnum None (PStr s) = Some (PStr s)"
| "coerce KEnum (Some vs) (PStr s) =
     (if lower s \<in> set (map lower vs) then Some (PStr s) else None)"
| "coerce k av v = None"

text \<open>Modelled from the spec: what \<^verbatim>\<open>parse_with_fallback\<close> does with a field that
  is absent or of the wrong kind: "if a default exists, substitute the default and
  continue; if required and no default, abort with MissingRequiredField(path)". A field
  that is neither required nor has a default is left null. The path of the failure
  starts empty here and grows as the failure passes up through the enclosing objects.\<close>

definition fallback :: "schema \<Rightarrow> reconciliation_error + pyval" where
  "fallback node =
     (case default_value node of
        Some d \<Rightarrow> Inr d
      | None \<Rightarrow> if required node then Inl (MissingRequiredField []) else Inr PNone)"

text \<open>Modelled from the spec: the value \<^verbatim>\<open>parse_with_fallback\<close> gives a field of an
  object, from the field's node and the outcome of reconciling the value the input has
  for it (\<open>None\<close>: the input has none). "If present in input and of the expected kind,
  recurse; if absent or of the wrong kind" fall back; a failure below is fatal.\<close>

fun field_outcome ::
  "schema \<Rightarrow> (reconciliation_error + pyval option) option \<Rightarrow> reconciliation_error + pyval" where
  "field_outcome node None = fallback node"
| "field_outcome node (Some (Inl e)) = Inl e"
| "field_outcome node (Some (Inr None)) = fallback node"
| "field_outcome node (Some (Inr (Some v))) = Inr v"

text \<open>Modelled from the spec: what \<^verbatim>\<open>parse_with_fallback\<close> keeps of an element of an
  array: "an individual element failure degrades that element to its nested default
  if available, otherwise ... skip, do not abort the array". \<open>None\<close> is skip.\<close>

fun element_outcome :: "schema \<Rightarrow> reconciliation_error + pyval option \<Rightarrow> pyval option" where
  "element_outcome node (Inr (Some v)) = Some v"
| "element_outcome node r = default_value node"

text \<open>Modelled from the spec: the path of a MissingRequiredField raised by
  \<^verbatim>\<open>parse_with_fallback\<close> below the field \<open>n\<close> gets \<open>n\<close> in front.\<close>

fun prefix_path :: "string \<Rightarrow> reconciliation_error + pyval \<Rightarrow> reconciliation_error + pyval" where
  "prefix_path n (Inl (MissingRequiredField p)) = Inl (MissingRequiredField (n # p))"
| "prefix_path n r = r"

text \<open>Modelled from the spec: the fields of an object are reconciled by
  \<^verbatim>\<open>parse_with_fallback\<close> in the order of the schema, and the first fatal failure aborts
  the walk.\<close>

fun collect ::
  "(string \<times> (reconciliation_error + pyval)) list \<Rightarrow>
     reconciliation_error + (string \<times> pyval) list" where
  "collect [] = Inr []"
| "collect ((n, Inl e) # rs) = Inl e"
| "collect ((n, Inr v) # rs) =
     (case collect rs of Inl e \<Rightarrow> Inl e | Inr kvs \<Rightarrow> Inr ((n, v) # kvs))"

text \<open>Modelled from the spec: the depth-first walk of \<^verbatim>\<open>parse_with_fallback\<close>, step 2
  and 3 of the algorithm of the reconciliation engine, on a value that is present.
  The result is a fatal failure, \<open>None\<close> when the value is of the wrong kind ("treated as
  absent"), or the reconciled value. An object keeps exactly the fields of the schema
  ("fields in the raw input with no corresponding schema entry are dropped silently").\<close>

fun reconcile_value :: "schema \<Rightarrow> pyval \<Rightarrow> reconciliation_error + pyval option" where
  "reconcile_value (SchemaNode k req d cs el av) v =
     (case k of
        KObject \<Rightarrow>
          (case v of
             PDict obj \<Rightarrow>
               (case collect
                       (map (\<lambda>nc. (fst nc, prefix_path (fst nc)
                               (field_outcome (snd nc)
                                  (map_option (reconcile_value (snd nc)) (map_of obj (fst nc))))))
                          cs) of
                  Inl e \<Rightarrow> Inl e
                | Inr out \<Rightarrow> Inr (Some (PDict out)))
           | _ \<Rightarrow> Inr None)
      | KArray \<Rightarrow>
          (case v of
             PList xs \<Rightarrow>
               (case el of
                  None \<Rightarrow> Inr (Some (PList xs))
                | Some e \<Rightarrow>
                    Inr (Some (PList
                      (List.map_filter (\<lambda>x. element_outcome e (reconcile_value e x)) xs))))
           | _ \<Rightarrow> Inr None)
      | _ \<Rightarrow> Inr (coerce k av v))"

text \<open>Modelled from the spec: \<open>reconcile(raw, schema)\<close>, the contract of
  \<^verbatim>\<open>parse_with_fallback\<close>. "If raw is text, attempt strict JSON parse. Failure \<rightarrow>
  MalformedInput"; then the walk from the root. The JSON parser is a parameter.\<close>

definition reconcile ::
  "(string \<Rightarrow> pyval option) \<Rightarrow> schema \<Rightarrow> raw_value \<Rightarrow> reconciliation_error + pyval" where
  "reconcile json_parse schema raw =
     (case (case raw of Text s \<Rightarrow> json_parse s | Mapping v \<Rightarrow> Some v) of
        None \<Rightarrow> Inl MalformedInput
      | Some v \<Rightarrow> field_outcome schema (Some (reconcile_value schema v)))"

text \<open>Modelled from the spec: the invariant of a schema given to
  \<^verbatim>\<open>parse_with_fallback\<close>: "a node with default defined must have a default whose
  shape matches kind" (the default is a value the node accepts as it is), and the
  children are a mapping (no field name twice).\<close>

fun wf_schema :: "schema \<Rightarrow> bool" where
  "wf_schema (SchemaNode k req d cs el av) =
     ((case d of
         None \<Rightarrow> True
       | Some dv \<Rightarrow> reconcile_value (SchemaNode k req d cs el av) dv = Inr (Some dv))
      \<and> distinct (map fst cs)
      \<and> list_all (\<lambda>nc. wf_schema (snd nc)) cs
      \<and> (case el of None \<Rightarrow> True | Some e \<Rightarrow> wf_schema e))"

text \<open>Modelled from the spec: the node of "a required field f in S" that is nested
  in objects only, found from the root of the schema of \<^verbatim>\<open>parse_with_fallback\<close> by the
  field names of its path (the path a MissingRequiredField names).\<close>

fun field_schema :: "schema \<Rightarrow> string list \<Rightarrow> schema option" where
  "field_schema S [] = Some S"
| "field_schema S (f # p) =
     (if kind S = KObject
      then (case map_of (children S) f of None \<Rightarrow> None | Some c \<Rightarrow> field_schema c p)
      else None)"

text \<open>Modelled from the spec: a step of a path into a schema given to
  \<^verbatim>\<open>parse_with_fallback\<close>: into the child of an object by its field name, or into the
  elements of an array.\<close>

datatype step = Field string | Element

text \<open>Modelled from the spec: the node of a field of S "regardless of nesting depth",
  nested in objects and in the elements of arrays, for the schemas given to
  \<^verbatim>\<open>parse_with_fallback\<close>.\<close>

fun schema_at :: "schema \<Rightarrow> step list \<Rightarrow> schema option" where
  "schema_at S [] = Some S"
| "schema_at S (Field f # p) =
     (if kind S = KObject
      then (case map_of (children S) f of None \<Rightarrow> None | Some c \<Rightarrow> schema_at c p)
      else None)"
| "schema_at S (Element # p) =
     (if kind S = KArray
      then (case element S of None \<Rightarrow> None | Some e \<Rightarrow> schema_at e p)
      else None)"

text \<open>Modelled from the spec: "omitting f from R", for an input of
  \<^verbatim>\<open>parse_with_fallback\<close>: the raw value that has the field at the path, with that field
  removed. \<open>None\<close> when the raw value does not have the field.\<close>

fun omit_field :: "string list \<Rightarrow> pyval \<Rightarrow> pyval option" where
  "omit_field [f] (PDict obj) =
     (if f \<in> set (map fst obj) then Some (PDict (filter (\<lambda>kv. fst kv \<noteq> f) obj)) else None)"
| "omit_field (f # g # p) (PDict obj) =
     (case map_of obj f of
        None \<Rightarrow> None
      | Some v \<Rightarrow>
          map_option (\<lambda>v'. PDict (map (\<lambda>kv. if fst kv = f then (f, v') else kv) obj))
            (omit_field (g # p) v))"
| "omit_field p v = None"

text \<open>Modelled from the spec: a SchemaNode of kind string, for the schemas given to
  \<^verbatim>\<open>parse_with_fallback\<close>.\<close>

definition string_field :: "bool \<Rightarrow> pyval option \<Rightarrow> schema" where
  "string_field req d = SchemaNode KString req d [] None None"

text \<open>Modelled from the spec: a SchemaNode of kind array with the schema of its
  elements, for the schemas given to \<^verbatim>\<open>parse_with_fallback\<close>.\<close>

definition array_field :: "bool \<Rightarrow> pyval option \<Rightarrow> schema \<Rightarrow> schema" where
  "array_field req d e = SchemaNode KArray req d [] (Some e) None"

text \<open>Modelled from the spec: a SchemaNode of kind object with its children, for the
  schemas given to \<^verbatim>\<open>parse_with_fallback\<close>.\<close>

definition object_field :: "bool \<Rightarrow> pyval option \<Rightarrow> (string \<times> schema) list \<Rightarrow> schema" where
  "object_field req d cs = SchemaNode KObject req d cs None None"

text \<open>Modelled from the spec: the schema of the examples of the testable properties,
  \<^verbatim>\<open>{analysis_result:{root_cause:string(required),
  confidence_level:string(default="unknown")}}\<close>, as a schema for
  \<^verbatim>\<open>parse_with_fallback\<close>.\<close>

definition example_schema :: schema where
  "example_schema =
     object_field True None
       [(''analysis_result'', object_field True None
          [(''root_cause'', string_field True None),
           (''confidence_level'', string_field False (Some (PStr ''unknown'')))])]"

text \<open>Modelled from the spec: the schema \<^verbatim>\<open>parse_analyze_error_output\<close> hands to
  \<^verbatim>\<open>parse_with_fallback\<close>. The fields, their kinds and which are required are the
  declarations of \<^verbatim>\<open>Analyze_ErrorOutput\<close> and of the classes it nests
  (\<^verbatim>\<open>str\<close> is string, \<^verbatim>\<open>List[...]\<close> is array, a nested class is object, a field
  declared \<^verbatim>\<open>Optional[...] = None\<close> is not required); the defaults are the entries of
  the \<^verbatim>\<open>defaults\<close> dictionary of \<^verbatim>\<open>parse_analyze_error_output\<close>, each at the field
  it names. Elements of arrays have no defaults there.\<close>

definition Analyze_ErrorOutput_schema :: schema where
  "Analyze_ErrorOutput_schema =
     object_field True None
       [(''analysis_result'', object_field True
           (Some (PDict
              [(''root_cause'', PStr ''default_root_cause''),
               (''error_category'', PStr ''default_error_category''),
               (''confidence_level'', PStr ''default_confidence_level''),
               (''impact_assessment'', PStr ''default_impact_assessment'')]))
           [(''root_cause'', string_field True (Some (PStr ''default_root_cause''))),
            (''error_category'', string_field True (Some (PStr ''default_error_category''))),
            (''confidence_level'', string_field True (Some (PStr ''default_confidence_level''))),
            (''impact_assessment'', string_field True (Some (PStr ''default_impact_assessment'')))]),
        (''recommended_fixes'', array_field True (Some (PList []))
           (object_field True None
              [(''fix_title'', string_field True None),
               (''fix_description'', string_field True None),
               (''fix_type'', string_field True None),
               (''estimated_effort'', string_field True None),
               (''code_changes'', array_field False None
                  (object_field True None
                     [(''file_path'', string_field False None),
                      (''suggested_change'', string_field False None),
                      (''change_type'', string_field False None)])),
               (''commands_to_run'', array_field False None (string_field True None)),
               (''prerequisites'', array_field False None (string_field True None))])),
        (''developer_message'', object_field True
           (Some (PDict
              [(''summary'', PStr ''default_summary''),
               (''detailed_explanation'', PStr ''default_detailed_explanation''),
               (''next_steps'', PList []),
               (''related_documentation'', PList []),
               (''prevention_tips'', PList [])]))
           [(''summary'', string_field True (Some (PStr ''default_summary''))),
            (''detailed_explanation'',
               string_field True (Some (PStr ''default_detailed_explanation''))),
            (''next_steps'', array_field True (Some (PList [])) (string_field True None)),
            (''related_documentation'', array_field False (Some (PList []))
               (object_field True None
                  [(''title'', string_field False None),
                   (''url'', string_field False None)])),
            (''prevention_tips'', array_field False (Some (PList [])) (string_field True None))]),
        (''urgency_level'', string_field True (Some (PStr ''how_default'')))]"

section \<open>Facts about the dispatch and the parse functions\<close>

lemma str_replace_hyphen:
  "str_replace ''-'' ''_'' t = map (\<lambda>c. if c = CHR ''-'' then CHR ''_'' else c) t"
  by (induction t) simp_all

lemma call_rejects:
  assumes "(\<exists>k \<in> set (map fst kwargs). k \<notin> set (reqd @ optl))
         \<or> (\<exists>p \<in> set reqd. p \<notin> set (map fst kwargs))"
  shows "\<exists>msg. \<forall>body. call (Method name reqd optl body) kwargs w = (Inl (Exn TypeError msg), w)"
proof (cases "filter (\<lambda>k. k \<notin> set (reqd @ optl)) (map fst kwargs)")
  case (Cons k ks)
  then show ?thesis by simp
next
  case Nil
  then have "\<forall>k \<in> set (map fst kwargs). k \<in> set (reqd @ optl)"
    by (simp add: filter_empty_conv)
  with assms obtain p where "p \<in> set reqd" "p \<notin> set (map fst kwargs)" by blast
  then have "filter (\<lambda>p. p \<notin> set (map fst kwargs)) reqd \<noteq> []"
    by (auto simp: filter_empty_conv)
  then obtain q qs where "filter (\<lambda>p. p \<notin> set (map fst kwargs)) reqd = q # qs"
    by (cases "filter (\<lambda>p. p \<notin> set (map fst kwargs)) reqd") auto
  with Nil show ?thesis by simp
qed

lemma call_accepts:
  assumes "set (map fst kwargs) \<subseteq> set (reqd @ optl)"
    and "set reqd \<subseteq> set (map fst kwargs)"
  shows "call (Method name reqd optl body) kwargs w = body kwargs w"
proof -
  have "filter (\<lambda>k. k \<notin> set (reqd @ optl)) (map fst kwargs) = []"
    using assms(1) by (auto simp: filter_empty_conv)
  moreover have "filter (\<lambda>p. p \<notin> set (map fst kwargs)) reqd = []"
    using assms(2) by (auto simp: filter_empty_conv)
  ultimately show ?thesis by simp
qed

lemma handle_message_str:
  assumes "map_of message ''task'' = Some (PStr t)" and "t \<noteq> []"
  shows "handle_message self message w =
           (case self (str_replace ''-'' ''_'' t) of
              None \<Rightarrow> (Inr (error_envelope (''Unknown task: '' @ t)), w)
            | Some method \<Rightarrow> respond t (call method (method_params message) w))"
  using assms by (simp add: handle_message_def)

lemma collector_handle_message_str:
  assumes "map_of message ''task'' = Some (PStr t)" and "t \<noteq> []"
  shows "collector_handle_message env self message w =
           (case self (str_replace ''-'' ''_'' t) of
              None \<Rightarrow> (Inr (error_envelope (''Unknown task: '' @ t)), w)
            | Some method \<Rightarrow> collector_respond env t (call method (method_params message) w))"
  using assms by (simp add: collector_handle_message_def)

lemma parse_output_instance:
  "isinstance r c \<Longrightarrow> parse_output env c d r = Inr r"
  by (simp add: parse_output_def)

lemma parse_output_malformed:
  "json_loads env s = Inl (Exn JSONDecodeError m) \<Longrightarrow>
   parse_output env c d (PStr s) = Inl (Exn ValueError (''Failed to parse JSON response: '' @ m))"
  by (simp add: parse_output_def)

lemmas canned_defs =
  canned_env_def no_attrs_def GithubActionsErrorAnalyzerAgent_def
  GithubActionsErrorCollectorAgent_def GithubActionsErrorRemediatorAgent_def
  analyze_error_def generate_pr_comment_def suggest_workflow_improvements_def
  collect_errors_def extract_build_info_def propose_remediation_def
  analyze_error_params_def generate_pr_comment_params_def
  suggest_workflow_improvements_params_def collect_errors_params_def
  extract_build_info_params_def propose_remediation_params_def
  task_function_def input_dict_def method_params_def respond_def collector_respond_def
  caught_def error_envelope_def parse_output_def
  parse_analyze_error_output_def parse_generate_pr_comment_output_def
  parse_suggest_workflow_improvements_output_def parse_collect_errors_output_def
  parse_extract_build_info_output_def parse_propose_remediation_output_def
  quoted_names_def

section \<open>The claims about the dispatcher\<close>

text \<open>
  Claim C1. When the task of a message resolves to an attribute of the agent and the
  call of that attribute raises an exception (in the binding of the parameters, in the
  handler, or in the parse function the handler calls), \<^verbatim>\<open>handle_message\<close> returns
  a dictionary with the one key \<^verbatim>\<open>error\<close>, whose text ends with the text of the
  exception; nothing is raised to the caller. This holds for the \<^verbatim>\<open>handle_message\<close>
  of the analyzer and the remediator and for that of the collector.
\<close>

theorem handler_exception_becomes_error_envelope:
  assumes "map_of message ''task'' = Some (PStr t)" and "t \<noteq> []"
    and "self (str_replace ''-'' ''_'' t) = Some handler"
    and "call handler (method_params message) w = (Inl e, w')"
  shows "handle_message self message w =
           (Inr (error_envelope
              ((if is_TypeError e then ''Invalid parameters for task ''
                else ''Error executing task '') @ t @ '': '' @ exn_str e)), w')
       \<and> collector_handle_message env self message w =
           (Inr (error_envelope
              ((if is_TypeError e then ''Invalid parameters for task ''
                else ''Error executing task '') @ t @ '': '' @ exn_str e)), w')"
  using assms
  by (simp add: handle_message_str collector_handle_message_str respond_def
      collector_respond_def caught_def)

theorem handler_exception_becomes_error_envelope_witness:
  "map_of [(''task'', PStr ''analyze-error''), (''error_summary'', PNone), (''job_context'', PNone),
           (''log_statistics'', PNone), (''additional_context'', PNone)] ''task''
     = Some (PStr ''analyze-error'')
   \<and> ''analyze-error'' \<noteq> []
   \<and> GithubActionsErrorAnalyzerAgent
        (canned_env\<lparr>invoke_intelligence := \<lambda>task inputs w. (Inr (PStr ''not json''), Suc w)\<rparr>)
        ''a1'' no_attrs (str_replace ''-'' ''_'' ''analyze-error'')
     = Some (Method ''analyze_error'' analyze_error_params []
         (analyze_error
            (canned_env\<lparr>invoke_intelligence := \<lambda>task inputs w. (Inr (PStr ''not json''), Suc w)\<rparr>)))
   \<and> call (Method ''analyze_error'' analyze_error_params []
         (analyze_error
            (canned_env\<lparr>invoke_intelligence := \<lambda>task inputs w. (Inr (PStr ''not json''), Suc w)\<rparr>)))
        (method_params [(''task'', PStr ''analyze-error''), (''error_summary'', PNone),
           (''job_context'', PNone), (''log_statistics'', PNone), (''additional_context'', PNone)]) 0
     = (Inl (Exn ValueError
          ''Failed to parse JSON response: Expecting value: line 1 column 1 (char 0)''), 1)
   \<and> handle_message
        (GithubActionsErrorAnalyzerAgent
           (canned_env\<lparr>invoke_intelligence := \<lambda>task inputs w. (Inr (PStr ''not json''), Suc w)\<rparr>)
           ''a1'' no_attrs)
        [(''task'', PStr ''analyze-error''), (''error_summary'', PNone), (''job_context'', PNone),
         (''log_statistics'', PNone), (''additional_context'', PNone)] 0
     = (Inr (PDict [(''error'', PStr
          ''Error executing task analyze-error: Failed to parse JSON response: Expecting value: line 1 column 1 (char 0)'')]),
        1)"
proof -
  let ?env = "canned_env\<lparr>invoke_intelligence := \<lambda>task inputs w. (Inr (PStr ''not json''), Suc w)\<rparr>"
  let ?msg = "[(''task'', PStr ''analyze-error''), (''error_summary'', PNone), (''job_context'', PNone),
           (''log_statistics'', PNone), (''additional_context'', PNone)]"
  let ?m = "Method ''analyze_error'' analyze_error_params [] (analyze_error ?env)"
  have h1: "map_of ?msg ''task'' = Some (PStr ''analyze-error'')" by simp
  have h2: "''analyze-error'' \<noteq> []" by simp
  have h3: "GithubActionsErrorAnalyzerAgent ?env ''a1'' no_attrs (str_replace ''-'' ''_'' ''analyze-error'')
     = Some ?m"
    by (simp add: GithubActionsErrorAnalyzerAgent_def)
  have h4: "call ?m (method_params ?msg) (0::nat)
     = (Inl (Exn ValueError
          ''Failed to parse JSON response: Expecting value: line 1 column 1 (char 0)''), 1)"
    by (simp add: canned_defs)
  show ?thesis
    using handler_exception_becomes_error_envelope
      [where message = ?msg and t = "''analyze-error''"
         and self = "GithubActionsErrorAnalyzerAgent ?env ''a1'' no_attrs" and handler = ?m
         and w = 0 and w' = 1 and env = canned_env
         and e = "Exn ValueError
            ''Failed to parse JSON response: Expecting value: line 1 column 1 (char 0)''",
       OF h1 h2 h3 h4] h1 h3 h4
    by (simp add: error_envelope_def)
qed

text \<open>
  Claim C10. A message whose \<^verbatim>\<open>task\<close> key is present with a falsy value (the empty
  string, \<^verbatim>\<open>None\<close>, 0, an empty list or dictionary) gets the envelope
  \<^verbatim>\<open>{"error": "Missing required field: task"}\<close>, which is not an Unknown-task
  envelope; this is so for every agent, whatever its attributes, and the state of the
  world is unchanged: no handler is looked up or invoked.
\<close>

theorem falsy_task_is_missing_field:
  assumes "map_of message ''task'' = Some v" and "\<not> truthy v"
  shows "handle_message self message w =
           (Inr (error_envelope ''Missing required field: task''), w)
       \<and> collector_handle_message env self message w =
           (Inr (error_envelope ''Missing required field: task''), w)
       \<and> error_envelope ''Missing required field: task'' \<noteq> error_envelope (''Unknown task: '' @ t)"
  using assms by (simp add: handle_message_def collector_handle_message_def error_envelope_def)

theorem falsy_task_is_missing_field_witness:
  "map_of [(''task'', PStr ''''), (''error_summary'', PNone)] ''task'' = Some (PStr '''')
   \<and> \<not> truthy (PStr '''')
   \<and> handle_message (GithubActionsErrorAnalyzerAgent canned_env ''a1'' no_attrs)
        [(''task'', PStr ''''), (''error_summary'', PNone)] 0
       = (Inr (PDict [(''error'', PStr ''Missing required field: task'')]), 0)
   \<and> collector_handle_message canned_env (GithubActionsErrorCollectorAgent canned_env ''a1'' no_attrs)
        [(''task'', PStr ''''), (''error_summary'', PNone)] 0
       = (Inr (PDict [(''error'', PStr ''Missing required field: task'')]), 0)"
  using falsy_task_is_missing_field
    [where message = "[(''task'', PStr ''''), (''error_summary'', PNone)]" and v = "PStr ''''"
       and self = "GithubActionsErrorAnalyzerAgent canned_env ''a1'' no_attrs" and w = "0::nat"]
    falsy_task_is_missing_field
    [where message = "[(''task'', PStr ''''), (''error_summary'', PNone)]" and v = "PStr ''''"
       and self = "GithubActionsErrorCollectorAgent canned_env ''a1'' no_attrs" and w = "0::nat"
       and env = canned_env]
  by (simp add: error_envelope_def)

text \<open>
  Claim C2, as amended. A message whose \<^verbatim>\<open>task\<close> is a non-empty string that, after
  the replacement of hyphens by underscores, names nothing the agent has gets the
  envelope \<^verbatim>\<open>{"error": "Unknown task: <task>"}\<close>, and the state of the world is
  unchanged: no handler is invoked. As it is stated, for every task that is not a
  registered task identifier, the claim fails at the empty task, which is no task
  identifier and gets the missing-required-field envelope of the guard
  \<^verbatim>\<open>if not task\<close>.
\<close>

theorem unknown_task_envelope:
  assumes "map_of message ''task'' = Some (PStr t)" and "t \<noteq> []"
    and "self (str_replace ''-'' ''_'' t) = None"
  shows "handle_message self message w = (Inr (error_envelope (''Unknown task: '' @ t)), w)
       \<and> collector_handle_message env self message w =
           (Inr (error_envelope (''Unknown task: '' @ t)), w)"
  using assms by (simp add: handle_message_str collector_handle_message_str)

theorem unknown_task_envelope_witness:
  "map_of [(''task'', PStr ''restart-runner''), (''job'', PInt 7)] ''task'' = Some (PStr ''restart-runner'')
   \<and> ''restart-runner'' \<noteq> []
   \<and> GithubActionsErrorAnalyzerAgent canned_env ''a1'' no_attrs
        (str_replace ''-'' ''_'' ''restart-runner'') = None
   \<and> handle_message (GithubActionsErrorAnalyzerAgent canned_env ''a1'' no_attrs)
        [(''task'', PStr ''restart-runner''), (''job'', PInt 7)] 0
       = (Inr (PDict [(''error'', PStr ''Unknown task: restart-runner'')]), 0)"
proof -
  have h3: "GithubActionsErrorAnalyzerAgent canned_env ''a1'' no_attrs
        (str_replace ''-'' ''_'' ''restart-runner'') = None"
    by (simp add: GithubActionsErrorAnalyzerAgent_def no_attrs_def)
  show ?thesis
    using unknown_task_envelope
      [where message = "[(''task'', PStr ''restart-runner''), (''job'', PInt 7)]"
         and t = "''restart-runner''"
         and self = "GithubActionsErrorAnalyzerAgent canned_env ''a1'' no_attrs" and w = "0::nat"
         and env = canned_env] h3
    by (simp add: error_envelope_def)
qed

theorem unknown_task_counterexample:
  "handle_message (GithubActionsErrorAnalyzerAgent canned_env ''a1'' no_attrs)
      [(''task'', PStr '''')] 0
     = (Inr (error_envelope ''Missing required field: task''), 0)
   \<and> GithubActionsErrorAnalyzerAgent canned_env ''a1'' no_attrs (str_replace ''-'' ''_'' '''') = None
   \<and> error_envelope ''Missing required field: task'' \<noteq> error_envelope (''Unknown task: '' @ '''')"
  by (simp add: handle_message_def GithubActionsErrorAnalyzerAgent_def no_attrs_def
      error_envelope_def)

text \<open>
  Claim C5. For a task identifier with hyphens, the name \<^verbatim>\<open>handle_message\<close> looks up
  is the identifier with every hyphen replaced by an underscore, and the attribute of
  that name is what it calls; in particular a message with the task
  \<^verbatim>\<open>analyze-error\<close> and the four parameters of \<^verbatim>\<open>analyze_error\<close> gets the outcome
  of \<^verbatim>\<open>analyze_error\<close> on these parameters.
\<close>

theorem hyphenated_task_resolves_to_underscore_handler:
  "(CHR ''-'' \<in> set t \<longrightarrow> map_of message ''task'' = Some (PStr t) \<longrightarrow>
      str_replace ''-'' ''_'' t = map (\<lambda>c. if c = CHR ''-'' then CHR ''_'' else c) t
      \<and> handle_message self message w =
          (case self (map (\<lambda>c. if c = CHR ''-'' then CHR ''_'' else c) t) of
             None \<Rightarrow> (Inr (error_envelope (''Unknown task: '' @ t)), w)
           | Some handler \<Rightarrow> respond t (call handler (method_params message) w))
      \<and> collector_handle_message env self message w =
          (case self (map (\<lambda>c. if c = CHR ''-'' then CHR ''_'' else c) t) of
             None \<Rightarrow> (Inr (error_envelope (''Unknown task: '' @ t)), w)
           | Some handler \<Rightarrow> collector_respond env t (call handler (method_params message) w)))
   \<and> (set (map fst kwargs) = set analyze_error_params \<longrightarrow>
        handle_message (GithubActionsErrorAnalyzerAgent env agent_id rest)
           ((''task'', PStr ''analyze-error'') # kwargs) w
         = respond ''analyze-error'' (analyze_error env kwargs w))"
proof (intro conjI impI)
  assume h: "CHR ''-'' \<in> set t" and m: "map_of message ''task'' = Some (PStr t)"
  from h have ne: "t \<noteq> []" by auto
  show "str_replace ''-'' ''_'' t = map (\<lambda>c. if c = CHR ''-'' then CHR ''_'' else c) t"
    by (rule str_replace_hyphen)
  show "handle_message self message w =
          (case self (map (\<lambda>c. if c = CHR ''-'' then CHR ''_'' else c) t) of
             None \<Rightarrow> (Inr (error_envelope (''Unknown task: '' @ t)), w)
           | Some handler \<Rightarrow> respond t (call handler (method_params message) w))"
    using handle_message_str[OF m ne] by (simp only: str_replace_hyphen)
  show "collector_handle_message env self message w =
          (case self (map (\<lambda>c. if c = CHR ''-'' then CHR ''_'' else c) t) of
             None \<Rightarrow> (Inr (error_envelope (''Unknown task: '' @ t)), w)
           | Some handler \<Rightarrow> collector_respond env t (call handler (method_params message) w))"
    using collector_handle_message_str[OF m ne] by (simp only: str_replace_hyphen)
next
  assume k: "set (map fst kwargs) = set analyze_error_params"
  let ?msg = "(''task'', PStr ''analyze-error'') # kwargs"
  have nt: "''task'' \<notin> set (map fst kwargs)"
    unfolding k by (simp add: analyze_error_params_def)
  have mp: "method_params ?msg = kwargs"
    using nt by (force simp: method_params_def filter_id_conv)
  have look: "GithubActionsErrorAnalyzerAgent env agent_id rest (str_replace ''-'' ''_'' ''analyze-error'')
      = Some (Method ''analyze_error'' analyze_error_params [] (analyze_error env))"
    by (simp add: GithubActionsErrorAnalyzerAgent_def)
  have c: "call (Method ''analyze_error'' analyze_error_params [] (analyze_error env)) kwargs w
      = analyze_error env kwargs w"
    by (rule call_accepts) (use k in auto)
  have "map_of ?msg ''task'' = Some (PStr ''analyze-error'')" by simp
  from handle_message_str[OF this, of "GithubActionsErrorAnalyzerAgent env agent_id rest" w]
  show "handle_message (GithubActionsErrorAnalyzerAgent env agent_id rest) ?msg w
         = respond ''analyze-error'' (analyze_error env kwargs w)"
    by (simp only: look mp c option.case) simp
qed

theorem hyphenated_task_resolves_to_underscore_handler_witness:
  "CHR ''-'' \<in> set ''analyze-error''
   \<and> map_of [(''task'', PStr ''analyze-error''), (''error_summary'', PNone), (''job_context'', PNone),
           (''log_statistics'', PNone), (''additional_context'', PNone)] ''task''
       = Some (PStr ''analyze-error'')
   \<and> str_replace ''-'' ''_'' ''analyze-error'' = ''analyze_error''
   \<and> set (map fst [(''error_summary'', PNone), (''job_context'', PNone),
           (''log_statistics'', PNone), (''additional_context'', PNone)]) = set analyze_error_params
   \<and> handle_message (GithubActionsErrorAnalyzerAgent canned_env ''a1'' no_attrs)
        [(''task'', PStr ''analyze-error''), (''error_summary'', PNone), (''job_context'', PNone),
         (''log_statistics'', PNone), (''additional_context'', PNone)] 0
       = (Inr (PDict analyze_error_defaults), 1)"
  using hyphenated_task_resolves_to_underscore_handler
    [where t = "''analyze-error''"
       and message = "[(''task'', PStr ''analyze-error''), (''error_summary'', PNone),
           (''job_context'', PNone), (''log_statistics'', PNone), (''additional_context'', PNone)]"
       and self = "GithubActionsErrorAnalyzerAgent canned_env ''a1'' no_attrs" and w = "0::nat"
       and env = canned_env and agent_id = "''a1''" and rest = no_attrs
       and kwargs = "[(''error_summary'', PNone), (''job_context'', PNone),
           (''log_statistics'', PNone), (''additional_context'', PNone)]"]
  by (simp add: canned_defs analyze_error_defaults_def)

text \<open>
  Claim C6. When the parameters of a message (its entries but \<^verbatim>\<open>task\<close>) hold a key
  that is not a declared parameter of the resolved handler, or lack a declared
  parameter that has no default, \<^verbatim>\<open>handle_message\<close> returns an envelope
  \<^verbatim>\<open>{"error": "Invalid parameters for task <task>: ..."}\<close>; the state of the world is
  unchanged and the answer is the same with any other body in place of the handler's:
  the body does not run.
\<close>

theorem invalid_parameters_rejected_before_handler_runs:
  assumes "map_of message ''task'' = Some (PStr t)" and "t \<noteq> []"
    and "self (str_replace ''-'' ''_'' t) = Some (Method name reqd optl body)"
    and "(\<exists>k \<in> set (map fst (method_params message)). k \<notin> set (reqd @ optl))
       \<or> (\<exists>p \<in> set reqd. p \<notin> set (map fst (method_params message)))"
  shows "\<exists>msg. handle_message self message w =
             (Inr (error_envelope (''Invalid parameters for task '' @ t @ '': '' @ msg)), w)
         \<and> handle_message (self(str_replace ''-'' ''_'' t \<mapsto> Method name reqd optl body')) message w =
             (Inr (error_envelope (''Invalid parameters for task '' @ t @ '': '' @ msg)), w)
         \<and> collector_handle_message env self message w =
             (Inr (error_envelope (''Invalid parameters for task '' @ t @ '': '' @ msg)), w)"
proof -
  from call_rejects[OF assms(4), of name w] obtain msg where
    r: "\<And>b. call (Method name reqd optl b) (method_params message) w = (Inl (Exn TypeError msg), w)"
    by blast
  note c = r[of body] and c' = r[of body']
  show ?thesis
    using assms(3) c c'
    by (intro exI[of _ msg])
       (simp add: handle_message_str[OF assms(1,2)] collector_handle_message_str[OF assms(1,2)]
          respond_def collector_respond_def caught_def)
qed

theorem invalid_parameters_rejected_before_handler_runs_witness:
  "map_of [(''task'', PStr ''analyze_error''), (''error_summary'', PNone), (''job_context'', PNone),
           (''log_statistics'', PNone), (''additional_context'', PNone), (''bogus'', PInt 1)] ''task''
       = Some (PStr ''analyze_error'')
   \<and> ''analyze_error'' \<noteq> []
   \<and> GithubActionsErrorAnalyzerAgent canned_env ''a1'' no_attrs (str_replace ''-'' ''_'' ''analyze_error'')
       = Some (Method ''analyze_error'' analyze_error_params [] (analyze_error canned_env))
   \<and> ''bogus'' \<in> set (map fst (method_params
         [(''task'', PStr ''analyze_error''), (''error_summary'', PNone), (''job_context'', PNone),
          (''log_statistics'', PNone), (''additional_context'', PNone), (''bogus'', PInt 1)]))
   \<and> ''bogus'' \<notin> set (analyze_error_params @ [])
   \<and> handle_message (GithubActionsErrorAnalyzerAgent canned_env ''a1'' no_attrs)
        [(''task'', PStr ''analyze_error''), (''error_summary'', PNone), (''job_context'', PNone),
         (''log_statistics'', PNone), (''additional_context'', PNone), (''bogus'', PInt 1)] 0
       = (Inr (error_envelope (''Invalid parameters for task analyze_error: ''
            @ ''analyze_error() got an unexpected keyword argument ''
            @ [CHR 0x27] @ ''bogus'' @ [CHR 0x27])), 0)"
proof -
  let ?msg = "[(''task'', PStr ''analyze_error''), (''error_summary'', PNone), (''job_context'', PNone),
         (''log_statistics'', PNone), (''additional_context'', PNone), (''bogus'', PInt 1)]"
  have h1: "map_of ?msg ''task'' = Some (PStr ''analyze_error'')" by simp
  have h2: "''analyze_error'' \<noteq> []" by simp
  have h3: "GithubActionsErrorAnalyzerAgent canned_env ''a1'' no_attrs (str_replace ''-'' ''_'' ''analyze_error'')
       = Some (Method ''analyze_error'' analyze_error_params [] (analyze_error canned_env))"
    by (simp add: GithubActionsErrorAnalyzerAgent_def)
  have h4: "(\<exists>k \<in> set (map fst (method_params ?msg)). k \<notin> set (analyze_error_params @ []))
       \<or> (\<exists>p \<in> set analyze_error_params. p \<notin> set (map fst (method_params ?msg)))"
    by (simp add: method_params_def analyze_error_params_def)
  show ?thesis
    using invalid_parameters_rejected_before_handler_runs
      [where message = ?msg and t = "''analyze_error''"
         and self = "GithubActionsErrorAnalyzerAgent canned_env ''a1'' no_attrs"
         and name = "''analyze_error''" and reqd = analyze_error_params and optl = "[]"
         and body = "analyze_error canned_env" and w = "0::nat", OF h1 h2 h3 h4] h3
    by (simp add: handle_message_def respond_def caught_def method_params_def
        analyze_error_params_def error_envelope_def quoted_names_def)
qed

text \<open>
  Claim C7, on the collector. When the handler returns and \<^verbatim>\<open>json.dumps\<close> succeeds,
  \<^verbatim>\<open>handle_message\<close> of the collector returns the JSON text, a string, where the
  \<^verbatim>\<open>handle_message\<close> of the analyzer and the remediator returns the dictionary
  itself.
\<close>

theorem collector_returns_json_text_on_success:
  assumes "map_of message ''task'' = Some (PStr t)" and "t \<noteq> []"
    and "self (str_replace ''-'' ''_'' t) = Some handler"
    and "call handler (method_params message) w = (Inr result, w')"
    and "json_dumps env (if has_model_dump result then model_dump result else result) = Inr s"
  shows "collector_handle_message env self message w = (Inr (PStr s), w')
       \<and> handle_message self message w =
           (Inr (if has_model_dump result then model_dump result else result), w')"
  using assms
  by (simp add: handle_message_str collector_handle_message_str respond_def collector_respond_def)

theorem collector_returns_json_text_on_success_witness:
  "map_of [(''task'', PStr ''extract-build-info''), (''raw_logs'', PStr ''npm ERR!''),
           (''build_system'', PStr ''npm'')] ''task'' = Some (PStr ''extract-build-info'')
   \<and> ''extract-build-info'' \<noteq> []
   \<and> collector_handle_message canned_env (GithubActionsErrorCollectorAgent canned_env ''a1'' no_attrs)
        [(''task'', PStr ''extract-build-info''), (''raw_logs'', PStr ''npm ERR!''),
         (''build_system'', PStr ''npm'')] 0
       = (Inr (PStr (canned_dumps (PDict extract_build_info_defaults))), 1)
   \<and> take 21 (canned_dumps (PDict extract_build_info_defaults))
       = ''{'' @ [CHR 0x22] @ ''build_commands'' @ [CHR 0x22] @ '': []''"
proof -
  let ?msg = "[(''task'', PStr ''extract-build-info''), (''raw_logs'', PStr ''npm ERR!''),
         (''build_system'', PStr ''npm'')]"
  let ?h = "Method ''extract_build_info'' extract_build_info_params [] (extract_build_info canned_env)"
  let ?r = "PModel ''Extract_Build_InfoOutput'' extract_build_info_defaults"
  have h1: "map_of ?msg ''task'' = Some (PStr ''extract-build-info'')" by simp
  have h2: "''extract-build-info'' \<noteq> []" by simp
  have h3: "GithubActionsErrorCollectorAgent canned_env ''a1'' no_attrs
      (str_replace ''-'' ''_'' ''extract-build-info'') = Some ?h"
    by (simp add: GithubActionsErrorCollectorAgent_def)
  have h4: "call ?h (method_params ?msg) (0::nat) = (Inr ?r, 1)"
    by (simp add: canned_defs)
  have d: "model_dump ?r = PDict extract_build_info_defaults"
    by (simp add: extract_build_info_defaults_def)
  have h5: "json_dumps canned_env (if has_model_dump ?r then model_dump ?r else ?r)
      = Inr (canned_dumps (PDict extract_build_info_defaults))"
    unfolding d by (simp add: canned_env_def extract_build_info_defaults_def)
  have t: "take 21 (canned_dumps (PDict extract_build_info_defaults))
       = ''{'' @ [CHR 0x22] @ ''build_commands'' @ [CHR 0x22] @ '': []''"
    by (simp add: extract_build_info_defaults_def)
  show ?thesis
    using collector_returns_json_text_on_success
      [where message = ?msg and t = "''extract-build-info''"
         and self = "GithubActionsErrorCollectorAgent canned_env ''a1'' no_attrs"
         and handler = ?h and w = "0::nat" and w' = "1::nat" and result = ?r and env = canned_env
         and s = "canned_dumps (PDict extract_build_info_defaults)", OF h1 h2 h3 h4 h5] t
    by simp
qed

section \<open>The claims about the parse functions\<close>

text \<open>
  Claim C4, as amended. When the response is a string that \<^verbatim>\<open>json.loads\<close> rejects
  with a \<^verbatim>\<open>JSONDecodeError\<close>, each of the six parse functions raises
  \<^verbatim>\<open>ValueError('Failed to parse JSON response: ...')\<close> at once: the result is the same
  whatever \<^verbatim>\<open>parse_with_fallback\<close> is, so no default is substituted and nothing is
  tried twice. As it is stated, for every string that is not strict JSON, the claim
  fails: \<^verbatim>\<open>json.loads\<close> reads the text \<^verbatim>\<open>NaN\<close>, which is not JSON, as a float, and the
  parse function goes on to \<^verbatim>\<open>parse_with_fallback\<close>, which may return a record built
  from the defaults or raise an error of its own.
\<close>

theorem malformed_json_is_value_error:
  assumes "json_loads env s = Inl (Exn JSONDecodeError m)"
  shows "parse_analyze_error_output (env\<lparr>parse_with_fallback := pwf\<rparr>) (PStr s)
           = Inl (Exn ValueError (''Failed to parse JSON response: '' @ m))
       \<and> parse_generate_pr_comment_output (env\<lparr>parse_with_fallback := pwf\<rparr>) (PStr s)
           = Inl (Exn ValueError (''Failed to parse JSON response: '' @ m))
       \<and> parse_suggest_workflow_improvements_output (env\<lparr>parse_with_fallback := pwf\<rparr>) (PStr s)
           = Inl (Exn ValueError (''Failed to parse JSON response: '' @ m))
       \<and> parse_collect_errors_output (env\<lparr>parse_with_fallback := pwf\<rparr>) (PStr s)
           = Inl (Exn ValueError (''Failed to parse JSON response: '' @ m))
       \<and> parse_extract_build_info_output (env\<lparr>parse_with_fallback := pwf\<rparr>) (PStr s)
           = Inl (Exn ValueError (''Failed to parse JSON response: '' @ m))
       \<and> parse_propose_remediation_output (env\<lparr>parse_with_fallback := pwf\<rparr>) (PStr s)
           = Inl (Exn ValueError (''Failed to parse JSON response: '' @ m))"
proof -
  have "json_loads (env\<lparr>parse_with_fallback := pwf\<rparr>) s = Inl (Exn JSONDecodeError m)"
    using assms by simp
  from parse_output_malformed[OF this] show ?thesis
    by (simp only: parse_analyze_error_output_def parse_generate_pr_comment_output_def
        parse_suggest_workflow_improvements_output_def parse_collect_errors_output_def
        parse_extract_build_info_output_def parse_propose_remediation_output_def simp_thms)
qed

theorem malformed_json_is_value_error_witness:
  "json_loads canned_env ''{root_cause: OOM''
     = Inl (Exn JSONDecodeError ''Expecting value: line 1 column 1 (char 0)'')
   \<and> parse_analyze_error_output canned_env (PStr ''{root_cause: OOM'')
     = Inl (Exn ValueError
         ''Failed to parse JSON response: Expecting value: line 1 column 1 (char 0)'')
   \<and> parse_collect_errors_output canned_env (PStr ''{root_cause: OOM'')
     = Inl (Exn ValueError
         ''Failed to parse JSON response: Expecting value: line 1 column 1 (char 0)'')
   \<and> parse_propose_remediation_output canned_env (PStr ''{root_cause: OOM'')
     = Inl (Exn ValueError
         ''Failed to parse JSON response: Expecting value: line 1 column 1 (char 0)'')"
proof -
  have h: "json_loads canned_env ''{root_cause: OOM''
     = Inl (Exn JSONDecodeError ''Expecting value: line 1 column 1 (char 0)'')"
    by (simp add: canned_env_def)
  have e: "canned_env\<lparr>parse_with_fallback := parse_with_fallback canned_env\<rparr> = canned_env"
    by simp
  show ?thesis
    using malformed_json_is_value_error
      [where env = canned_env and s = "''{root_cause: OOM''"
         and m = "''Expecting value: line 1 column 1 (char 0)''"
         and pwf = "parse_with_fallback canned_env", OF h] h
    by (simp only: e) simp
qed

theorem malformed_json_counterexample:
  "json_loads canned_env ''NaN'' = Inr (PFloat FNaN)
   \<and> parse_analyze_error_output canned_env (PStr ''NaN'')
       = Inr (PModel ''Analyze_ErrorOutput'' analyze_error_defaults)
   \<and> parse_analyze_error_output
        (canned_env\<lparr>parse_with_fallback :=
           \<lambda>response model_class defaults. Inl (Exn OtherException ''1 validation error'')\<rparr>)
        (PStr ''NaN'')
       = Inl (Exn ValueError ''Error parsing response with DACP parser: 1 validation error'')"
  by (simp add: canned_env_def parse_analyze_error_output_def parse_output_def)

text \<open>
  Claim C9. Each parse function returns an instance of its own output model as it is,
  whatever the collaborators are: nothing is parsed, defaulted or validated.
\<close>

theorem parse_returns_instance_unchanged:
  "parse_analyze_error_output env (PModel ''Analyze_ErrorOutput'' fs)
     = Inr (PModel ''Analyze_ErrorOutput'' fs)
   \<and> parse_generate_pr_comment_output env (PModel ''Generate_Pr_CommentOutput'' fs)
     = Inr (PModel ''Generate_Pr_CommentOutput'' fs)
   \<and> parse_suggest_workflow_improvements_output env (PModel ''Suggest_Workflow_ImprovementsOutput'' fs)
     = Inr (PModel ''Suggest_Workflow_ImprovementsOutput'' fs)
   \<and> parse_collect_errors_output env (PModel ''Collect_ErrorsOutput'' fs)
     = Inr (PModel ''Collect_ErrorsOutput'' fs)
   \<and> parse_extract_build_info_output env (PModel ''Extract_Build_InfoOutput'' fs)
     = Inr (PModel ''Extract_Build_InfoOutput'' fs)
   \<and> parse_propose_remediation_output env (PModel ''Propose_RemediationOutput'' fs)
     = Inr (PModel ''Propose_RemediationOutput'' fs)"
  by (simp add: parse_output_instance parse_analyze_error_output_def
      parse_generate_pr_comment_output_def parse_suggest_workflow_improvements_output_def
      parse_collect_errors_output_def parse_extract_build_info_output_def
      parse_propose_remediation_output_def)

section \<open>Facts about the reconciliation engine\<close>

declare reconcile_value.simps [simp del]

lemma prefix_path_Inr [simp]: "prefix_path n r = Inr v \<longleftrightarrow> r = Inr v"
  by (cases "(n, r)" rule: prefix_path.cases) auto

lemma collect_Inr_iff:
  assumes "distinct (map fst cs)"
  shows "collect (map (\<lambda>nc. (fst nc, g nc)) cs) = Inr out \<longleftrightarrow>
         map fst out = map fst cs \<and> (\<forall>nc \<in> set cs. g nc = Inr (the (map_of out (fst nc))))"
  using assms
proof (induction cs arbitrary: out)
  case Nil
  then show ?case by auto
next
  case (Cons nc cs)
  obtain n c where nc: "nc = (n, c)" by (cases nc)
  show ?case
  proof (cases "g nc")
    case (Inl e)
    then show ?thesis by (auto simp: nc)
  next
    case (Inr v)
    have d: "distinct (map fst cs)" and nin: "n \<notin> fst ` set cs"
      using Cons.prems by (auto simp: nc)
    show ?thesis
    proof (cases out)
      case Nil
      then show ?thesis using Inr by (auto simp: nc split: sum.splits)
    next
      case (Cons kv out')
      obtain k' v' where kv: "kv = (k', v')" by (cases kv)
      have *: "\<And>x. x \<in> set cs \<Longrightarrow> fst x \<noteq> n" using nin by force
      show ?thesis
        using Inr Cons.IH[OF d, of out'] *
        by (auto simp: nc Cons kv split: sum.splits)
    qed
  qed
qed

lemma collect_all_ok:
  "collect (map (\<lambda>nc. (fst nc, g nc)) cs) = Inr out \<Longrightarrow> nc \<in> set cs \<Longrightarrow> \<exists>v. g nc = Inr v"
proof (induction cs arbitrary: out)
  case Nil
  then show ?case by simp
next
  case (Cons a cs)
  then show ?case
    by (cases "g a") (auto split: sum.splits)
qed

lemma collect_first_error:
  "map_of cs f = Some c \<Longrightarrow> (\<And>nc. nc \<in> set cs \<Longrightarrow> fst nc \<noteq> f \<Longrightarrow> \<exists>v. g nc = Inr v) \<Longrightarrow>
   g (f, c) = Inl e \<Longrightarrow> collect (map (\<lambda>nc. (fst nc, g nc)) cs) = Inl e"
proof (induction cs)
  case Nil
  then show ?case by simp
next
  case (Cons a cs)
  obtain n c0 where a: "a = (n, c0)" by (cases a)
  show ?case
  proof (cases "n = f")
    case True
    then show ?thesis using Cons.prems by (simp add: a)
  next
    case False
    then obtain v where v: "g a = Inr v" using Cons.prems(2)[of a] by (auto simp: a)
    have "collect (map (\<lambda>nc. (fst nc, g nc)) cs) = Inl e"
      using Cons.IH Cons.prems False by (auto simp: a)
    then show ?thesis using v by (simp add: a)
  qed
qed

lemma coerce_idem: "coerce k av v = Some r \<Longrightarrow> coerce k av r = Some r"
  by (induction k av v rule: coerce.induct) (auto split: if_splits)

lemma map_filter_fixed: "(\<And>y. y \<in> set ys \<Longrightarrow> h y = Some y) \<Longrightarrow> List.map_filter h ys = ys"
  by (induction ys) (auto simp: List.map_filter_simps)

lemma reconcile_value_PNone: "reconcile_value S PNone = Inr None"
  by (cases S) (auto simp: reconcile_value.simps split: kind.splits)

lemma reconcile_value_object_kind:
  "kind S = KObject \<Longrightarrow> reconcile_value S (PDict obj) \<noteq> Inr None"
  by (cases S) (auto simp: reconcile_value.simps split: sum.splits)

lemma field_outcome_idem:
  assumes idem: "\<And>v r. reconcile_value c v = Inr (Some r) \<Longrightarrow> reconcile_value c r = Inr (Some r)"
    and dflt: "\<And>d. default_value c = Some d \<Longrightarrow> reconcile_value c d = Inr (Some d)"
    and res: "field_outcome c (map_option (reconcile_value c) vo) = Inr r"
  shows "field_outcome c (Some (reconcile_value c r)) = Inr r"
proof -
  have fb: "field_outcome c (Some (reconcile_value c r)) = Inr r" if f: "fallback c = Inr r"
  proof (cases "default_value c")
    case None
    then have "r = PNone" using f by (auto simp: fallback_def split: if_splits)
    then show ?thesis using f by (simp add: reconcile_value_PNone)
  next
    case (Some d)
    then have "r = d" using f by (simp add: fallback_def)
    then show ?thesis using dflt[OF Some] by simp
  qed
  show ?thesis
  proof (cases vo)
    case None
    then show ?thesis using res fb by simp
  next
    case (Some v)
    show ?thesis
    proof (cases "reconcile_value c v")
      case (Inl e)
      then show ?thesis using res Some by simp
    next
      case (Inr ro)
      show ?thesis
      proof (cases ro)
        case None
        then show ?thesis using res Some Inr fb by simp
      next
        case (Some r')
        then have "r' = r" using res \<open>vo = Some v\<close> Inr by simp
        then show ?thesis using idem[of v r] Inr Some by simp
      qed
    qed
  qed
qed

lemma wf_schema_default:
  "wf_schema S \<Longrightarrow> default_value S = Some d \<Longrightarrow> reconcile_value S d = Inr (Some d)"
  by (cases S) auto

lemma wf_schema_child:
  "wf_schema (SchemaNode k req d cs el av) \<Longrightarrow> nc \<in> set cs \<Longrightarrow> wf_schema (snd nc)"
  by (auto simp: list_all_iff)

lemma reconcile_value_idem:
  "wf_schema S \<Longrightarrow> reconcile_value S v = Inr (Some r) \<Longrightarrow> reconcile_value S r = Inr (Some r)"
proof (induction S arbitrary: v r)
  case (SchemaNode k req d cs el av)
  show ?case
  proof (cases k)
    case KObject
    from SchemaNode.prems(2) KObject obtain obj where v: "v = PDict obj"
      by (cases v) (auto simp: reconcile_value.simps)
    let ?g = "\<lambda>ob nc. prefix_path (fst nc)
        (field_outcome (snd nc) (map_option (reconcile_value (snd nc)) (map_of ob (fst nc))))"
    from SchemaNode.prems(2) KObject v obtain out where
      c1: "collect (map (\<lambda>nc. (fst nc, ?g obj nc)) cs) = Inr out" and r: "r = PDict out"
      by (auto simp: reconcile_value.simps split: sum.splits)
    have dist: "distinct (map fst cs)" using SchemaNode.prems(1) by simp
    from c1 have keys: "map fst out = map fst cs"
      and vals: "\<And>nc. nc \<in> set cs \<Longrightarrow> ?g obj nc = Inr (the (map_of out (fst nc)))"
      using collect_Inr_iff[OF dist, of "?g obj" out] by auto
    have "?g out nc = Inr (the (map_of out (fst nc)))" if nc: "nc \<in> set cs" for nc
    proof -
      obtain n c where [simp]: "nc = (n, c)" by (cases nc)
      have "n \<in> set (map fst cs)" using nc by force
      then have "n \<in> fst ` set out" using keys by (metis list.set_map)
      then obtain r' where r': "map_of out n = Some r'"
        by (metis domD dom_map_of_conv_image_fst)
      have wfc: "wf_schema c" using wf_schema_child[OF SchemaNode.prems(1) nc] by simp
      have first: "field_outcome c (map_option (reconcile_value c) (map_of obj n)) = Inr r'"
        using vals[OF nc] r' by simp
      have "field_outcome c (Some (reconcile_value c r')) = Inr r'"
      proof (rule field_outcome_idem[OF _ _ first])
        show "\<And>v r. reconcile_value c v = Inr (Some r) \<Longrightarrow> reconcile_value c r = Inr (Some r)"
          using SchemaNode.IH(1)[of nc c] nc wfc by auto
        show "\<And>d. default_value c = Some d \<Longrightarrow> reconcile_value c d = Inr (Some d)"
          using wf_schema_default[OF wfc] by simp
      qed
      then show ?thesis using r' by simp
    qed
    then have "collect (map (\<lambda>nc. (fst nc, ?g out nc)) cs) = Inr out"
      using collect_Inr_iff[OF dist, of "?g out" out] keys by auto
    then show ?thesis by (simp add: reconcile_value.simps KObject r)
  next
    case KArray
    from SchemaNode.prems(2) KArray obtain xs where v: "v = PList xs"
      by (cases v) (auto simp: reconcile_value.simps)
    show ?thesis
    proof (cases el)
      case None
      then show ?thesis using SchemaNode.prems(2) KArray v by (auto simp: reconcile_value.simps)
    next
      case (Some e)
      let ?h = "\<lambda>x. element_outcome e (reconcile_value e x)"
      have r: "r = PList (List.map_filter ?h xs)"
        using SchemaNode.prems(2) KArray v Some by (auto simp: reconcile_value.simps)
      have wfe: "wf_schema e" using SchemaNode.prems(1) Some by simp
      have "?h y = Some y" if "y \<in> set (List.map_filter ?h xs)" for y
      proof -
        from that obtain x where x: "?h x = Some y"
          by (auto simp: List.map_filter_def)
        show ?thesis
        proof (cases "reconcile_value e x")
          case (Inl err)
          then have "default_value e = Some y" using x by simp
          then show ?thesis using wf_schema_default[OF wfe] by simp
        next
          case (Inr ro)
          show ?thesis
          proof (cases ro)
            case None
            then have "default_value e = Some y" using x Inr by simp
            then show ?thesis using wf_schema_default[OF wfe] by simp
          next
            case (Some y')
            then have "reconcile_value e x = Inr (Some y)" using x Inr by simp
            then show ?thesis using SchemaNode.IH(2)[of e x y] \<open>el = Some e\<close> wfe by simp
          qed
        qed
      qed
      then have "List.map_filter ?h (List.map_filter ?h xs) = List.map_filter ?h xs"
        by (rule map_filter_fixed)
      then show ?thesis by (simp add: reconcile_value.simps KArray Some r)
    qed
  next
    case KString
    then show ?thesis using SchemaNode.prems(2) coerce_idem by (auto simp: reconcile_value.simps)
  next
    case KInteger
    then show ?thesis using SchemaNode.prems(2) coerce_idem by (auto simp: reconcile_value.simps)
  next
    case KBoolean
    then show ?thesis using SchemaNode.prems(2) coerce_idem by (auto simp: reconcile_value.simps)
  next
    case KEnum
    then show ?thesis using SchemaNode.prems(2) coerce_idem by (auto simp: reconcile_value.simps)
  qed
qed

lemma reconcile_idem:
  assumes "wf_schema S" and "reconcile jp S raw = Inr r"
  shows "reconcile jp S (Mapping r) = Inr r"
proof -
  from assms(2) obtain v where v: "field_outcome S (map_option (reconcile_value S) (Some v)) = Inr r"
    by (auto simp: reconcile_def split: option.splits)
  have "field_outcome S (Some (reconcile_value S r)) = Inr r"
  proof (rule field_outcome_idem[OF _ _ v])
    show "\<And>v r. reconcile_value S v = Inr (Some r) \<Longrightarrow> reconcile_value S r = Inr (Some r)"
      using reconcile_value_idem[OF assms(1)] by simp
    show "\<And>d. default_value S = Some d \<Longrightarrow> reconcile_value S d = Inr (Some d)"
      using wf_schema_default[OF assms(1)] by simp
  qed
  then show ?thesis by (simp add: reconcile_def)
qed

lemma wf_Analyze_ErrorOutput_schema: "wf_schema Analyze_ErrorOutput_schema"
  by (simp add: Analyze_ErrorOutput_schema_def object_field_def array_field_def string_field_def
      reconcile_value.simps)

lemma map_of_filter_neq:
  "map_of (filter (\<lambda>kv. fst kv \<noteq> f) obj) n = (if n = f then None else map_of obj n)"
  by (induction obj) auto

lemma map_of_replace_other:
  "n \<noteq> f \<Longrightarrow> map_of (map (\<lambda>kv. if fst kv = f then (f, v') else kv) obj) n = map_of obj n"
  by (induction obj) auto

lemma map_of_replace_same:
  "map_of obj f = Some v \<Longrightarrow>
   map_of (map (\<lambda>kv. if fst kv = f then (f, v') else kv) obj) f = Some v'"
  by (induction obj) (auto split: if_splits)

lemma reconcile_value_object_error:
  assumes S: "kind S = KObject" and child: "map_of (children S) f = Some c"
    and ok: "reconcile_value S (PDict obj) = Inr (Some rec)"
    and same: "\<And>n. n \<noteq> f \<Longrightarrow> map_of obj' n = map_of obj n"
    and err: "prefix_path f (field_outcome c (map_option (reconcile_value c) (map_of obj' f))) = Inl e"
  shows "reconcile_value S (PDict obj') = Inl e"
proof -
  obtain k req d cs el av where Sd: "S = SchemaNode k req d cs el av" by (cases S)
  have k: "k = KObject" and cs: "map_of cs f = Some c" using S child by (simp_all add: Sd)
  let ?g = "\<lambda>ob nc. prefix_path (fst nc)
        (field_outcome (snd nc) (map_option (reconcile_value (snd nc)) (map_of ob (fst nc))))"
  from ok obtain out where c1: "collect (map (\<lambda>nc. (fst nc, ?g obj nc)) cs) = Inr out"
    by (auto simp: Sd k reconcile_value.simps split: sum.splits)
  have "collect (map (\<lambda>nc. (fst nc, ?g obj' nc)) cs) = Inl e"
  proof (rule collect_first_error[OF cs])
    fix nc assume nc: "nc \<in> set cs" and ne: "fst nc \<noteq> f"
    from collect_all_ok[OF c1 nc] obtain v where "?g obj nc = Inr v" by blast
    then show "\<exists>v. ?g obj' nc = Inr v" using same[OF ne] by simp
  next
    show "?g obj' (f, c) = Inl e" using err by simp
  qed
  then show ?thesis by (simp add: Sd k reconcile_value.simps)
qed

lemma omitted_required_field:
  "field_schema S p = Some node \<Longrightarrow> required node \<Longrightarrow> default_value node = None \<Longrightarrow>
   reconcile_value S R' = Inr (Some rec) \<Longrightarrow> omit_field p R' = Some R \<Longrightarrow>
   reconcile_value S R = Inl (MissingRequiredField p)"
proof (induction p R' arbitrary: S R rec rule: omit_field.induct)
  case (1 f obj)
  from "1.prems"(1) have S: "kind S = KObject" and child: "map_of (children S) f = Some node"
    by (auto split: if_splits option.splits)
  from "1.prems"(5) have R: "R = PDict (filter (\<lambda>kv. fst kv \<noteq> f) obj)"
    by (auto split: if_splits)
  show ?case unfolding R
  proof (rule reconcile_value_object_error[OF S child "1.prems"(4)])
    show "\<And>n. n \<noteq> f \<Longrightarrow> map_of (filter (\<lambda>kv. fst kv \<noteq> f) obj) n = map_of obj n"
      by (simp add: map_of_filter_neq)
    show "prefix_path f (field_outcome node (map_option (reconcile_value node)
            (map_of (filter (\<lambda>kv. fst kv \<noteq> f) obj) f))) = Inl (MissingRequiredField [f])"
      using "1.prems"(2,3) by (simp add: map_of_filter_neq fallback_def)
  qed
next
  case (2 f g p obj)
  from "2.prems"(1) obtain c where S: "kind S = KObject" and child: "map_of (children S) f = Some c"
    and sub: "field_schema c (g # p) = Some node"
    by (auto split: if_splits option.splits)
  from "2.prems"(5) obtain v v' where v: "map_of obj f = Some v"
    and v': "omit_field (g # p) v = Some v'"
    and R: "R = PDict (map (\<lambda>kv. if fst kv = f then (f, v') else kv) obj)"
    by (auto split: option.splits)
  obtain k req d cs el av where Sd: "S = SchemaNode k req d cs el av" by (cases S)
  have ck: "kind c = KObject" using sub by (auto split: if_splits)
  obtain vobj where vobj: "v = PDict vobj" using v' by (cases v) auto
  let ?g = "\<lambda>ob nc. prefix_path (fst nc)
        (field_outcome (snd nc) (map_option (reconcile_value (snd nc)) (map_of ob (fst nc))))"
  from "2.prems"(4) obtain out where c1: "collect (map (\<lambda>nc. (fst nc, ?g obj nc)) cs) = Inr out"
    using S by (auto simp: Sd reconcile_value.simps split: sum.splits)
  have "(f, c) \<in> set cs" using child by (auto simp: Sd dest: map_of_SomeD)
  from collect_all_ok[OF c1 this] obtain r0 where
    "field_outcome c (Some (reconcile_value c v)) = Inr r0" using v by auto
  moreover have "reconcile_value c v \<noteq> Inr None"
    using reconcile_value_object_kind[OF ck] vobj by simp
  ultimately obtain rv where rv: "reconcile_value c v = Inr (Some rv)"
    by (cases "reconcile_value c v") (auto split: option.splits)
  have inner: "reconcile_value c v' = Inl (MissingRequiredField (g # p))"
    using "2.IH"[OF v sub "2.prems"(2,3) rv v'] .
  show ?case unfolding R
  proof (rule reconcile_value_object_error[OF S child "2.prems"(4)])
    show "\<And>n. n \<noteq> f \<Longrightarrow>
        map_of (map (\<lambda>kv. if fst kv = f then (f, v') else kv) obj) n = map_of obj n"
      by (simp add: map_of_replace_other)
    show "prefix_path f (field_outcome c (map_option (reconcile_value c)
            (map_of (map (\<lambda>kv. if fst kv = f then (f, v') else kv) obj) f))) =
          Inl (MissingRequiredField (f # g # p))"
      using inner by (simp add: map_of_replace_same[OF v])
  qed
qed auto

section \<open>The claims about reconciliation\<close>

text \<open>
  Claim C3, as amended. Take a schema with a required field without default that is
  nested in objects only, at any depth, and a raw input that is reconciled
  successfully. With that field omitted from the input, reconciliation fails with
  MissingRequiredField naming the path of the field. The example of the specification
  is the instance that follows the theorem: the schema
  \<^verbatim>\<open>{analysis_result:{root_cause:string(required), ...}}\<close> and the input
  \<^verbatim>\<open>{"analysis_result":{}}\<close>, which is \<^verbatim>\<open>{"analysis_result":{"root_cause":"OOM"}}\<close>
  without its root cause, give \<^verbatim>\<open>MissingRequiredField("analysis_result.root_cause")\<close>.
  As it is stated, for any required field at any nesting depth, the claim fails for the
  fields of the elements of an array: an element that lacks a required field is
  replaced by the default of the element or skipped, and reconciliation succeeds, as
  for \<^verbatim>\<open>fix_title\<close> in an element of \<^verbatim>\<open>recommended_fixes\<close>.
\<close>

theorem omitted_required_field_is_reported:
  assumes "field_schema S p = Some node" and "required node" and "default_value node = None"
    and "reconcile json_parse S (Mapping R') = Inr rec"
    and "omit_field p R' = Some R"
  shows "reconcile json_parse S (Mapping R) = Inl (MissingRequiredField p)"
proof -
  from assms(5) obtain f p' where p: "p = f # p'" by (cases p) auto
  from assms(5) obtain obj where R': "R' = PDict obj"
    by (cases R'; cases p'; simp add: p)
  have k: "kind S = KObject" using assms(1) by (auto simp: p split: if_splits)
  from assms(4) have "field_outcome S (Some (reconcile_value S R')) = Inr rec"
    by (simp add: reconcile_def)
  moreover have "reconcile_value S R' \<noteq> Inr None"
    using reconcile_value_object_kind[OF k] R' by simp
  ultimately obtain rv where "reconcile_value S R' = Inr (Some rv)"
    by (cases "reconcile_value S R'") (auto split: option.splits)
  from omitted_required_field[OF assms(1,2,3) this assms(5)]
  show ?thesis by (simp add: reconcile_def)
qed

theorem omitted_required_field_is_reported_witness:
  "field_schema example_schema [''analysis_result'', ''root_cause''] = Some (string_field True None)
   \<and> required (string_field True None)
   \<and> default_value (string_field True None) = None
   \<and> reconcile (\<lambda>s. None) example_schema
        (Mapping (PDict [(''analysis_result'', PDict [(''root_cause'', PStr ''OOM'')])]))
       = Inr (PDict [(''analysis_result'',
            PDict [(''root_cause'', PStr ''OOM''), (''confidence_level'', PStr ''unknown'')])])
   \<and> omit_field [''analysis_result'', ''root_cause'']
        (PDict [(''analysis_result'', PDict [(''root_cause'', PStr ''OOM'')])])
       = Some (PDict [(''analysis_result'', PDict [])])
   \<and> reconcile (\<lambda>s. None) example_schema (Mapping (PDict [(''analysis_result'', PDict [])]))
       = Inl (MissingRequiredField [''analysis_result'', ''root_cause''])
   \<and> path_name [''analysis_result'', ''root_cause''] = ''analysis_result.root_cause''"
proof -
  let ?full = "PDict [(''analysis_result'', PDict [(''root_cause'', PStr ''OOM'')])]"
  let ?p = "[''analysis_result'', ''root_cause'']"
  have h1: "field_schema example_schema ?p = Some (string_field True None)"
    by (simp add: example_schema_def object_field_def)
  have h2: "required (string_field True None)" by (simp add: string_field_def)
  have h3: "default_value (string_field True None) = None" by (simp add: string_field_def)
  have h4: "reconcile (\<lambda>s. None) example_schema (Mapping ?full)
       = Inr (PDict [(''analysis_result'',
            PDict [(''root_cause'', PStr ''OOM''), (''confidence_level'', PStr ''unknown'')])])"
    by (simp add: reconcile_def example_schema_def object_field_def string_field_def
        reconcile_value.simps fallback_def)
  have h5: "omit_field ?p ?full = Some (PDict [(''analysis_result'', PDict [])])"
    by simp
  have n: "path_name ?p = ''analysis_result.root_cause''"
    by (simp add: path_name_def)
  show ?thesis
    using omitted_required_field_is_reported [OF h1 h2 h3 h4 h5] h1 h2 h3 h4 h5 n
    by simp
qed

theorem omitted_required_field_counterexample:
  "schema_at Analyze_ErrorOutput_schema [Field ''recommended_fixes'', Element, Field ''fix_title'']
     = Some (string_field True None)
   \<and> required (string_field True None)
   \<and> default_value (string_field True None) = None
   \<and> reconcile (\<lambda>s. None) Analyze_ErrorOutput_schema
        (Mapping (PDict
          [(''recommended_fixes'', PList
              [PDict [(''fix_title'', PStr ''raise the limit''),
                      (''fix_description'', PStr ''set memory to 4G''),
                      (''fix_type'', PStr ''config''), (''estimated_effort'', PStr ''low'')]])]))
     = Inr (PDict
          [(''analysis_result'', PDict
              [(''root_cause'', PStr ''default_root_cause''),
               (''error_category'', PStr ''default_error_category''),
               (''confidence_level'', PStr ''default_confidence_level''),
               (''impact_assessment'', PStr ''default_impact_assessment'')]),
           (''recommended_fixes'', PList
              [PDict [(''fix_title'', PStr ''raise the limit''),
                      (''fix_description'', PStr ''set memory to 4G''),
                      (''fix_type'', PStr ''config''), (''estimated_effort'', PStr ''low''),
                      (''code_changes'', PNone), (''commands_to_run'', PNone),
                      (''prerequisites'', PNone)]]),
           (''developer_message'', PDict
              [(''summary'', PStr ''default_summary''),
               (''detailed_explanation'', PStr ''default_detailed_explanation''),
               (''next_steps'', PList []),
               (''related_documentation'', PList []),
               (''prevention_tips'', PList [])]),
           (''urgency_level'', PStr ''how_default'')])
   \<and> reconcile (\<lambda>s. None) Analyze_ErrorOutput_schema
        (Mapping (PDict
          [(''recommended_fixes'', PList
              [PDict [(''fix_description'', PStr ''set memory to 4G''),
                      (''fix_type'', PStr ''config''), (''estimated_effort'', PStr ''low'')]])]))
     = Inr (PDict
          [(''analysis_result'', PDict
              [(''root_cause'', PStr ''default_root_cause''),
               (''error_category'', PStr ''default_error_category''),
               (''confidence_level'', PStr ''default_confidence_level''),
               (''impact_assessment'', PStr ''default_impact_assessment'')]),
           (''recommended_fixes'', PList []),
           (''developer_message'', PDict
              [(''summary'', PStr ''default_summary''),
               (''detailed_explanation'', PStr ''default_detailed_explanation''),
               (''next_steps'', PList []),
               (''related_documentation'', PList []),
               (''prevention_tips'', PList [])]),
           (''urgency_level'', PStr ''how_default'')])"
  by (simp add: reconcile_def Analyze_ErrorOutput_schema_def object_field_def
      array_field_def string_field_def reconcile_value.simps fallback_def
      List.map_filter_simps)

text \<open>
  Claim C8. Reconciliation against the schema of \<^verbatim>\<open>parse_analyze_error_output\<close> is
  idempotent: when it succeeds on a raw input, text or mapping, reconciling the record
  it returned, given back as a structured raw value, returns the same record.
\<close>

theorem reconciliation_is_idempotent:
  assumes "reconcile json_parse Analyze_ErrorOutput_schema raw = Inr r"
  shows "reconcile json_parse Analyze_ErrorOutput_schema (Mapping r) = Inr r"
  using wf_Analyze_ErrorOutput_schema assms by (rule reconcile_idem)

theorem reconciliation_is_idempotent_witness:
  "reconcile (\<lambda>s. None) Analyze_ErrorOutput_schema
     (Mapping
        (PDict
          [(''analysis_result'', PDict [(''root_cause'', PStr ''OOM''), (''note'', PStr ''extra'')]),
           (''recommended_fixes'', PList
              [PDict [],
               PDict [(''fix_title'', PStr ''raise the limit''),
                      (''fix_description'', PStr ''set memory to 4G''),
                      (''fix_type'', PStr ''config''), (''estimated_effort'', PStr ''low'')]]),
           (''urgency_level'', PInt 3)]))
   = Inr
        (PDict
          [(''analysis_result'', PDict
              [(''root_cause'', PStr ''OOM''),
               (''error_category'', PStr ''default_error_category''),
               (''confidence_level'', PStr ''default_confidence_level''),
               (''impact_assessment'', PStr ''default_impact_assessment'')]),
           (''recommended_fixes'', PList
              [PDict [(''fix_title'', PStr ''raise the limit''),
                      (''fix_description'', PStr ''set memory to 4G''),
                      (''fix_type'', PStr ''config''), (''estimated_effort'', PStr ''low''),
                      (''code_changes'', PNone), (''commands_to_run'', PNone),
                      (''prerequisites'', PNone)]]),
           (''developer_message'', PDict
              [(''summary'', PStr ''default_summary''),
               (''detailed_explanation'', PStr ''default_detailed_explanation''),
               (''next_steps'', PList []),
               (''related_documentation'', PList []),
               (''prevention_tips'', PList [])]),
           (''urgency_level'', PStr ''how_default'')])
   \<and> reconcile (\<lambda>s. None) Analyze_ErrorOutput_schema
     (Mapping
        (PDict
          [(''analysis_result'', PDict
              [(''root_cause'', PStr ''OOM''),
               (''error_category'', PStr ''default_error_category''),
               (''confidence_level'', PStr ''default_confidence_level''),
               (''impact_assessment'', PStr ''default_impact_assessment'')]),
           (''recommended_fixes'', PList
              [PDict [(''fix_title'', PStr ''raise the limit''),
                      (''fix_description'', PStr ''set memory to 4G''),
                      (''fix_type'', PStr ''config''), (''estimated_effort'', PStr ''low''),
                      (''code_changes'', PNone), (''commands_to_run'', PNone),
                      (''prerequisites'', PNone)]]),
           (''developer_message'', PDict
              [(''summary'', PStr ''default_summary''),
               (''detailed_explanation'', PStr ''default_detailed_explanation''),
               (''next_steps'', PList []),
               (''related_documentation'', PList []),
               (''prevention_tips'', PList [])]),
           (''urgency_level'', PStr ''how_default'')]))
   = Inr
        (PDict
          [(''analysis_result'', PDict
              [(''root_cause'', PStr ''OOM''),
               (''error_category'', PStr ''default_error_category''),
               (''confidence_level'', PStr ''default_confidence_level''),
               (''impact_assessment'', PStr ''default_impact_assessment'')]),
           (''recommended_fixes'', PList
              [PDict [(''fix_title'', PStr ''raise the limit''),
                      (''fix_description'', PStr ''set memory to 4G''),
                      (''fix_type'', PStr ''config''), (''estimated_effort'', PStr ''low''),
                      (''code_changes'', PNone), (''commands_to_run'', PNone),
                      (''prerequisites'', PNone)]]),
           (''developer_message'', PDict
              [(''summary'', PStr ''default_summary''),
               (''detailed_explanation'', PStr ''default_detailed_explanation''),
               (''next_steps'', PList []),
               (''related_documentation'', PList []),
               (''prevention_tips'', PList [])]),
           (''urgency_level'', PStr ''how_default'')])"
proof -
  have h: "reconcile (\<lambda>s. None) Analyze_ErrorOutput_schema
     (Mapping
        (PDict
          [(''analysis_result'', PDict [(''root_cause'', PStr ''OOM''), (''note'', PStr ''extra'')]),
           (''recommended_fixes'', PList
              [PDict [],
               PDict [(''fix_title'', PStr ''raise the limit''),
                      (''fix_description'', PStr ''set memory to 4G''),
                      (''fix_type'', PStr ''config''), (''estimated_effort'', PStr ''low'')]]),
           (''urgency_level'', PInt 3)]))
   = Inr
        (PDict
          [(''analysis_result'', PDict
              [(''root_cause'', PStr ''OOM''),
               (''error_category'', PStr ''default_error_category''),
               (''confidence_level'', PStr ''default_confidence_level''),
               (''impact_assessment'', PStr ''default_impact_assessment'')]),
           (''recommended_fixes'', PList
              [PDict [(''fix_title'', PStr ''raise the limit''),
                      (''fix_description'', PStr ''set memory to 4G''),
                      (''fix_type'', PStr ''config''), (''estimated_effort'', PStr ''low''),
                      (''code_changes'', PNone), (''commands_to_run'', PNone),
                      (''prerequisites'', PNone)]]),
           (''developer_message'', PDict
              [(''summary'', PStr ''default_summary''),
               (''detailed_explanation'', PStr ''default_detailed_explanation''),
               (''next_steps'', PList []),
               (''related_documentation'', PList []),
               (''prevention_tips'', PList [])]),
           (''urgency_level'', PStr ''how_default'')])"
    by (simp add: reconcile_def Analyze_ErrorOutput_schema_def object_field_def
        array_field_def string_field_def reconcile_value.simps fallback_def
        List.map_filter_simps)
  show ?thesis
    using reconciliation_is_idempotent [OF h] h by simp
qed

end
